theory Spec2Isabelle
  imports Complex_Main
begin

section \<open>Treasury trading engine: data model\<close>

text \<open>
  The embedding follows \<^verbatim>\<open>src/lib/trading-engine.ts\<close>. A finite JavaScript number
  is modelled as a real, with exact arithmetic: rounding, overflow and underflow are
  outside the model, and zero has no sign (it is the positive zero). The prices of the
  signals, the model values and the balance are reals; theorems that divide by one of them
  carry the hypothesis that keeps the divisor away from zero. The numbers that the engine
  reads out of text are of type \<open>jsnum\<close>, which adds the two infinities and NaN: the
  result of \<^verbatim>\<open>Number\<close> on an outcome price, and the \<^verbatim>\<open>parseFloat\<close> of the price
  and sizes of an open order, with everything computed from them. The balance is the
  \<^verbatim>\<open>parseFloat\<close> of the balance string as a \<open>real option\<close>, \<open>None\<close> for NaN; an
  infinite balance is outside the model. A \<open>string\<close> is a JavaScript string whose code
  units are below 256, one \<open>char\<close> for each code unit. \<^verbatim>\<open>Date.now()\<close> timestamps are
  left out of the log entries, and the text of a template string is kept as the structured
  value it interpolates.
\<close>

subsection \<open>Model constants and risk limits\<close>

text \<open>\<^verbatim>\<open>SIGMA\<close> is written \<open>SIGMA_c\<close>: the plain name is taken by the dependent sum.\<close>

definition SIGMA_c :: real where "SIGMA_c = 0.50"
definition T_EXP :: real where "T_EXP = 0.0000095"
definition R_FREE :: real where "R_FREE = 0.0433"
definition GAMMA :: real where "GAMMA = 0.10"
definition SIGMA_B :: real where "SIGMA_B = 0.328"
definition K_DECAY :: real where "K_DECAY = 1.50"
definition EDGE_THRESHOLD :: real where "EDGE_THRESHOLD = 3.0"
definition KELLY_FRACTION :: real where "KELLY_FRACTION = 0.25"

definition MAX_POSITION_PCT :: real where "MAX_POSITION_PCT = 0.05"
definition MAX_TOTAL_EXPOSURE_PCT :: real where "MAX_TOTAL_EXPOSURE_PCT = 0.40"

subsection \<open>Numbers with infinities and NaN\<close>

datatype jsnum = Fin real | PInf | NInf | NaN

fun jneg :: "jsnum \<Rightarrow> jsnum" where
  "jneg (Fin x) = Fin (- x)"
| "jneg PInf = NInf"
| "jneg NInf = PInf"
| "jneg NaN = NaN"

fun jadd :: "jsnum \<Rightarrow> jsnum \<Rightarrow> jsnum" where
  "jadd (Fin x) (Fin y) = Fin (x + y)"
| "jadd (Fin x) PInf = PInf"
| "jadd (Fin x) NInf = NInf"
| "jadd PInf (Fin y) = PInf"
| "jadd PInf PInf = PInf"
| "jadd PInf NInf = NaN"
| "jadd NInf (Fin y) = NInf"
| "jadd NInf PInf = NaN"
| "jadd NInf NInf = NInf"
| "jadd NaN b = NaN"
| "jadd (Fin x) NaN = NaN"
| "jadd PInf NaN = NaN"
| "jadd NInf NaN = NaN"

definition jsub :: "jsnum \<Rightarrow> jsnum \<Rightarrow> jsnum" where
  "jsub a b = jadd a (jneg b)"

text \<open>An infinity times a finite number: its sign follows the factor, and times 0 is NaN.\<close>

definition inf_times :: "bool \<Rightarrow> real \<Rightarrow> jsnum" where
  "inf_times positive y =
     (if y = 0 then NaN else if (0 < y) = positive then PInf else NInf)"

fun jmul :: "jsnum \<Rightarrow> jsnum \<Rightarrow> jsnum" where
  "jmul (Fin x) (Fin y) = Fin (x * y)"
| "jmul (Fin x) PInf = inf_times True x"
| "jmul (Fin x) NInf = inf_times False x"
| "jmul PInf (Fin y) = inf_times True y"
| "jmul PInf PInf = PInf"
| "jmul PInf NInf = NInf"
| "jmul NInf (Fin y) = inf_times False y"
| "jmul NInf PInf = NInf"
| "jmul NInf NInf = PInf"
| "jmul NaN b = NaN"
| "jmul (Fin x) NaN = NaN"
| "jmul PInf NaN = NaN"
| "jmul NInf NaN = NaN"

text \<open>
  Division. The engine divides numbers of this type by the positive balance and by 100
  only; a finite number divided by zero is given as JavaScript gives it for the positive
  zero.
\<close>

fun jdiv :: "jsnum \<Rightarrow> jsnum \<Rightarrow> jsnum" where
  "jdiv (Fin x) (Fin y) =
     (if y \<noteq> 0 then Fin (x / y)
      else if 0 < x then PInf else if x < 0 then NInf else NaN)"
| "jdiv (Fin x) PInf = Fin 0"
| "jdiv (Fin x) NInf = Fin 0"
| "jdiv PInf (Fin y) = (if 0 \<le> y then PInf else NInf)"
| "jdiv NInf (Fin y) = (if 0 \<le> y then NInf else PInf)"
| "jdiv PInf PInf = NaN"
| "jdiv PInf NInf = NaN"
| "jdiv NInf PInf = NaN"
| "jdiv NInf NInf = NaN"
| "jdiv NaN b = NaN"
| "jdiv (Fin x) NaN = NaN"
| "jdiv PInf NaN = NaN"
| "jdiv NInf NaN = NaN"

text \<open>The comparisons: every comparison with NaN is false.\<close>

fun js_le :: "jsnum \<Rightarrow> jsnum \<Rightarrow> bool" where
  "js_le (Fin x) (Fin y) = (x \<le> y)"
| "js_le (Fin x) PInf = True"
| "js_le (Fin x) NInf = False"
| "js_le PInf (Fin y) = False"
| "js_le PInf PInf = True"
| "js_le PInf NInf = False"
| "js_le NInf (Fin y) = True"
| "js_le NInf PInf = True"
| "js_le NInf NInf = True"
| "js_le NaN b = False"
| "js_le (Fin x) NaN = False"
| "js_le PInf NaN = False"
| "js_le NInf NaN = False"

definition js_ge :: "jsnum \<Rightarrow> jsnum \<Rightarrow> bool" where
  "js_ge a b = js_le b a"

fun js_lt :: "jsnum \<Rightarrow> jsnum \<Rightarrow> bool" where
  "js_lt (Fin x) (Fin y) = (x < y)"
| "js_lt (Fin x) PInf = True"
| "js_lt (Fin x) NInf = False"
| "js_lt PInf b = False"
| "js_lt NInf (Fin y) = True"
| "js_lt NInf PInf = True"
| "js_lt NInf NInf = False"
| "js_lt NaN b = False"
| "js_lt (Fin x) NaN = False"
| "js_lt NInf NaN = False"

definition js_gt :: "jsnum \<Rightarrow> jsnum \<Rightarrow> bool" where
  "js_gt a b = js_lt b a"

text \<open>\<^verbatim>\<open>Math.round\<close>: the nearest integer, a half rounded up.\<close>

definition Math_round :: "real \<Rightarrow> int" where
  "Math_round x = \<lfloor>x + 1 / 2\<rfloor>"

fun jround :: "jsnum \<Rightarrow> jsnum" where
  "jround (Fin x) = Fin (real_of_int (Math_round x))"
| "jround PInf = PInf"
| "jround NInf = NInf"
| "jround NaN = NaN"

subsection \<open>Types\<close>

datatype side = BUY | SELL

datatype action = SCAN | TRADE | SKIP | HALT | ERROR

datatype error = SyntaxError | TypeError | TransportError string | NonError

text \<open>The value \<^verbatim>\<open>JSON.parse\<close> returns.\<close>

datatype json =
    JNull
  | JBool bool
  | JNum real
  | JStr string
  | JArr "json list"
  | JObj "(string \<times> json) list"

text \<open>
  \<^verbatim>\<open>PolymarketMarket\<close>: the fields the engine reads. \<open>outcomePrices\<close> holds what
  \<^verbatim>\<open>JSON.parse\<close> makes of the raw string, \<open>None\<close> when it throws a SyntaxError.
\<close>

record PolymarketMarket =
  market_id :: string
  question :: string
  outcomePrices :: "json option"

record CoinPrice =
  coin_id :: string
  symbol :: string
  usd :: real

record EdgeSignal =
  asset :: string
  market :: PolymarketMarket
  modelFair :: real
  mktPrice :: real
  divergence :: real
  side :: side
  d2 :: real
  Nd2 :: real

record SizedPosition =
  signal :: EdgeSignal
  kellyFraction :: real
  sizeUSD :: real
  shares :: int

text \<open>The values interpolated into the \<^verbatim>\<open>details\<close> template of a log entry.\<close>

datatype details =
    ScanDetails real real real real real
  | EdgeDetails side real real real
  | BelowThreshold real real
  | Message string
  | MaxExposure jsnum
  | OrderPlaced side jsnum real real real string
  | OrderFailed string
  | Monitoring string side jsnum jsnum
  | MonitorFailed string

record TradingLog =
  action :: action
  log_asset :: "string option"
  details :: details

record ClobOrder =
  tokenID :: string
  order_price :: jsnum
  order_size :: int
  order_side :: side

record ClobOrderResponse =
  orderID :: string
  status :: string

record TradeResult =
  position :: SizedPosition
  result_orderID :: string
  result_status :: string

text \<open>
  \<^verbatim>\<open>OpenOrder\<close>: the venue sends \<^verbatim>\<open>price\<close>, \<^verbatim>\<open>original_size\<close> and
  \<^verbatim>\<open>size_matched\<close> as strings; the fields hold their \<^verbatim>\<open>parseFloat\<close>, which
  is NaN for a string that does not start with a number.
\<close>

record OpenOrder =
  asset_id :: string
  open_side :: side
  price :: jsnum
  original_size :: jsnum
  size_matched :: jsnum

subsection \<open>Math\<close>

definition normalCDF :: "real \<Rightarrow> real" where
  "normalCDF x =
     (let a1 = 0.254829592;
          a2 = - 0.284496736;
          a3 = 1.421413741;
          a4 = - 1.453152027;
          a5 = 1.061405429;
          p = 0.3275911;
          sign = (if x < 0 then - 1 else 1);
          z = \<bar>x\<bar> / sqrt 2;
          t = 1 / (1 + p * z);
          y = 1 - ((((a5 * t + a4) * t + a3) * t + a2) * t + a1) * t * exp (- z * z)
      in 0.5 * (1 + sign * y))"

text \<open>
  The two parts of \<^verbatim>\<open>y\<close> in \<^verbatim>\<open>normalCDF\<close>, named for the proofs: the polynomial
  in \<^verbatim>\<open>t\<close>, and its product with the exponential.
\<close>

definition erfc_poly :: "real \<Rightarrow> real" where
  "erfc_poly t =
     ((((1.061405429 * t + (- 1.453152027)) * t + 1.421413741) * t + (- 0.284496736)) * t
        + 0.254829592) * t"

definition erfc_term :: "real \<Rightarrow> real" where
  "erfc_term x =
     erfc_poly (1 / (1 + 0.3275911 * (\<bar>x\<bar> / sqrt 2))) *
       exp (- (\<bar>x\<bar> / sqrt 2) * (\<bar>x\<bar> / sqrt 2))"

subsection \<open>Number coercion and parseOutcomePrices\<close>

text \<open>
  \<^verbatim>\<open>Number(s)\<close> on a string follows the grammar of a string numeric literal: white
  space is trimmed at both ends, the empty string is 0, and what is left is a binary,
  octal or hexadecimal integer with its prefix, or a decimal literal with an optional
  sign, which is \<^verbatim>\<open>Infinity\<close> or digits with an optional fraction and an optional
  exponent. Every other string is NaN.
\<close>

definition is_StrWhiteSpaceChar :: "char \<Rightarrow> bool" where
  "is_StrWhiteSpaceChar c = ((of_char c :: nat) \<in> {9, 10, 11, 12, 13, 32, 160})"

definition trimString :: "string \<Rightarrow> string" where
  "trimString s =
     rev (dropWhile is_StrWhiteSpaceChar (rev (dropWhile is_StrWhiteSpaceChar s)))"

text \<open>The value of a digit, of a letter \<^verbatim>\<open>a\<close> to \<^verbatim>\<open>f\<close> in either case.\<close>

definition hex_val :: "char \<Rightarrow> nat option" where
  "hex_val c =
     (let n = (of_char c :: nat) in
      if 48 \<le> n \<and> n \<le> 57 then Some (n - 48)
      else if 97 \<le> n \<and> n \<le> 102 then Some (n - 87)
      else if 65 \<le> n \<and> n \<le> 70 then Some (n - 55)
      else None)"

fun digits_val :: "nat \<Rightarrow> nat \<Rightarrow> string \<Rightarrow> nat option" where
  "digits_val base acc [] = Some acc"
| "digits_val base acc (c # cs) =
     (case hex_val c of
        None \<Rightarrow> None
      | Some d \<Rightarrow> if d < base then digits_val base (base * acc + d) cs else None)"

text \<open>One digit or more in the base.\<close>

definition Digits :: "nat \<Rightarrow> string \<Rightarrow> nat option" where
  "Digits base s = (if s = [] then None else digits_val base 0 s)"

definition NonDecimalIntegerLiteral :: "string \<Rightarrow> nat option" where
  "NonDecimalIntegerLiteral s =
     (case s of
        c0 # c1 # ds \<Rightarrow>
          if c0 \<noteq> CHR ''0'' then None
          else if c1 = CHR ''x'' \<or> c1 = CHR ''X'' then Digits 16 ds
          else if c1 = CHR ''o'' \<or> c1 = CHR ''O'' then Digits 8 ds
          else if c1 = CHR ''b'' \<or> c1 = CHR ''B'' then Digits 2 ds
          else None
      | _ \<Rightarrow> None)"

text \<open>The exponent after the letter: digits with an optional sign.\<close>

definition SignedInteger :: "string \<Rightarrow> int option" where
  "SignedInteger s =
     (case s of
        [] \<Rightarrow> None
      | c # cs \<Rightarrow>
          if c = CHR ''+'' then map_option int (Digits 10 cs)
          else if c = CHR ''-'' then map_option (\<lambda>n. - int n) (Digits 10 cs)
          else map_option int (Digits 10 s))"

text \<open>
  The part before the exponent: digits, digits with a point and optional digits, or a
  point with digits.
\<close>

definition Mantissa :: "string \<Rightarrow> real option" where
  "Mantissa m =
     (let ip = takeWhile (\<lambda>c. c \<noteq> CHR ''.'') m;
          rest = dropWhile (\<lambda>c. c \<noteq> CHR ''.'') m
      in case rest of
           [] \<Rightarrow> map_option real (Digits 10 ip)
         | dot # fp \<Rightarrow>
             (if ip = [] \<and> fp = [] then None
              else case (digits_val 10 0 ip, digits_val 10 0 fp) of
                     (Some a, Some b) \<Rightarrow> Some (real a + real b / 10 ^ length fp)
                   | _ \<Rightarrow> None))"

definition is_ExponentIndicator :: "char \<Rightarrow> bool" where
  "is_ExponentIndicator c = (c = CHR ''e'' \<or> c = CHR ''E'')"

definition StrUnsignedDecimalLiteral :: "string \<Rightarrow> jsnum" where
  "StrUnsignedDecimalLiteral s =
     (if s = ''Infinity'' then PInf
      else
        let m = takeWhile (\<lambda>c. \<not> is_ExponentIndicator c) s;
            rest = dropWhile (\<lambda>c. \<not> is_ExponentIndicator c) s;
            ex = (case rest of [] \<Rightarrow> Some 0 | e # digits \<Rightarrow> SignedInteger digits)
        in case (Mantissa m, ex) of
             (Some v, Some k) \<Rightarrow>
               Fin (if 0 \<le> k then v * 10 ^ nat k else v / 10 ^ nat (- k))
           | _ \<Rightarrow> NaN)"

definition StrDecimalLiteral :: "string \<Rightarrow> jsnum" where
  "StrDecimalLiteral s =
     (case s of
        [] \<Rightarrow> NaN
      | c # cs \<Rightarrow>
          if c = CHR ''+'' then StrUnsignedDecimalLiteral cs
          else if c = CHR ''-'' then jneg (StrUnsignedDecimalLiteral cs)
          else StrUnsignedDecimalLiteral s)"

definition StringToNumber :: "string \<Rightarrow> jsnum" where
  "StringToNumber s =
     (let t = trimString s in
      if t = [] then Fin 0
      else case NonDecimalIntegerLiteral t of
             Some n \<Rightarrow> Fin (real n)
           | None \<Rightarrow> StrDecimalLiteral t)"

text \<open>
  Converting an object to a primitive throws a TypeError when neither \<^verbatim>\<open>valueOf\<close> nor
  \<^verbatim>\<open>toString\<close> yields a primitive. For a value out of \<^verbatim>\<open>JSON.parse\<close> that is an
  object with an own key \<^verbatim>\<open>toString\<close> (whose value cannot be called), or an array that
  holds such an object at any depth, since the string of an array joins the strings of its
  elements.
\<close>

fun throwsTypeError :: "json \<Rightarrow> bool" where
  "throwsTypeError (JObj kvs) = (''toString'' \<in> set (map fst kvs))"
| "throwsTypeError (JArr xs) = list_ex throwsTypeError xs"
| "throwsTypeError JNull = False"
| "throwsTypeError (JBool b) = False"
| "throwsTypeError (JNum x) = False"
| "throwsTypeError (JStr s) = False"

text \<open>
  \<^verbatim>\<open>Number\<close> on an array that does not throw, through its string: the empty array
  gives the empty string, a one-element array the string of its element (empty for
  \<^verbatim>\<open>null\<close>, and a number's string reads back as the number), and two or more elements
  give a string with a comma.
\<close>

fun arrayToNumber :: "json list \<Rightarrow> jsnum" where
  "arrayToNumber [] = Fin 0"
| "arrayToNumber [JNull] = Fin 0"
| "arrayToNumber [JNum x] = Fin x"
| "arrayToNumber [JStr s] = StringToNumber s"
| "arrayToNumber [JArr ys] = arrayToNumber ys"
| "arrayToNumber [JBool b] = NaN"
| "arrayToNumber [JObj kvs] = NaN"
| "arrayToNumber (x # y # zs) = NaN"

text \<open>\<^verbatim>\<open>Number(v)\<close> on a parsed JSON value; \<open>Inl\<close> is a thrown error.\<close>

fun ToNumber :: "json \<Rightarrow> error + jsnum" where
  "ToNumber JNull = Inr (Fin 0)"
| "ToNumber (JBool b) = Inr (Fin (if b then 1 else 0))"
| "ToNumber (JNum x) = Inr (Fin x)"
| "ToNumber (JStr s) = Inr (StringToNumber s)"
| "ToNumber (JArr xs) =
     (if throwsTypeError (JArr xs) then Inl TypeError else Inr (arrayToNumber xs))"
| "ToNumber (JObj kvs) =
     (if throwsTypeError (JObj kvs) then Inl TypeError else Inr NaN)"

text \<open>\<^verbatim>\<open>Number(v)\<close> where \<open>None\<close> on the left is \<^verbatim>\<open>undefined\<close>.\<close>

definition Number_js :: "json option \<Rightarrow> error + jsnum" where
  "Number_js v = (case v of None \<Rightarrow> Inr NaN | Some j \<Rightarrow> ToNumber j)"

text \<open>\<^verbatim>\<open>x || 0\<close> on the result of \<^verbatim>\<open>Number\<close>: NaN and 0 give 0.\<close>

definition num_or_zero :: "jsnum \<Rightarrow> jsnum" where
  "num_or_zero n = (case n of NaN \<Rightarrow> Fin 0 | _ \<Rightarrow> n)"

text \<open>
  \<^verbatim>\<open>x || 0\<close> on the \<^verbatim>\<open>parseFloat\<close> of the balance, \<open>None\<close> being NaN.
\<close>

definition or_zero :: "real option \<Rightarrow> real" where
  "or_zero n = (case n of None \<Rightarrow> 0 | Some x \<Rightarrow> x)"

text \<open>
  The two property keys the parser reads, \<^verbatim>\<open>arr[0]\<close> and \<^verbatim>\<open>arr[1]\<close>.
\<close>

datatype index01 = Idx0 | Idx1

fun idx_nat :: "index01 \<Rightarrow> nat" where
  "idx_nat Idx0 = 0"
| "idx_nat Idx1 = 1"

fun idx_key :: "index01 \<Rightarrow> string" where
  "idx_key Idx0 = ''0''"
| "idx_key Idx1 = ''1''"

text \<open>
  \<^verbatim>\<open>arr[i]\<close>: a TypeError on \<^verbatim>\<open>null\<close>, \<^verbatim>\<open>undefined\<close> (\<open>None\<close>)
  where the property is missing. In an object the last of several equal keys counts.
\<close>

fun js_index :: "json \<Rightarrow> index01 \<Rightarrow> error + json option" where
  "js_index JNull i = Inl TypeError"
| "js_index (JBool b) i = Inr None"
| "js_index (JNum x) i = Inr None"
| "js_index (JStr s) i =
     Inr (if idx_nat i < length s then Some (JStr [s ! idx_nat i]) else None)"
| "js_index (JArr xs) i = Inr (if idx_nat i < length xs then Some (xs ! idx_nat i) else None)"
| "js_index (JObj kvs) i = Inr (map_of (rev kvs) (idx_key i))"

text \<open>One entry of the returned pair, \<^verbatim>\<open>Number(arr[i]) || 0\<close>.\<close>

definition entry_try :: "json \<Rightarrow> index01 \<Rightarrow> error + jsnum" where
  "entry_try arr i =
     (case js_index arr i of
        Inl e \<Rightarrow> Inl e
      | Inr v \<Rightarrow> (case Number_js v of Inl e \<Rightarrow> Inl e | Inr n \<Rightarrow> Inr (num_or_zero n)))"

text \<open>The body of the \<^verbatim>\<open>try\<close> block; \<open>Inl\<close> is what it throws.\<close>

definition parseOutcomePrices_try :: "json option \<Rightarrow> error + (jsnum \<times> jsnum)" where
  "parseOutcomePrices_try raw =
     (case raw of
        None \<Rightarrow> Inl SyntaxError
      | Some arr \<Rightarrow>
          (case entry_try arr Idx0 of
             Inl e \<Rightarrow> Inl e
           | Inr p0 \<Rightarrow>
               (case entry_try arr Idx1 of
                  Inl e \<Rightarrow> Inl e
                | Inr p1 \<Rightarrow> Inr (p0, p1))))"

definition parseOutcomePrices :: "json option \<Rightarrow> jsnum \<times> jsnum" where
  "parseOutcomePrices raw =
     (case parseOutcomePrices_try raw of Inl e \<Rightarrow> (Fin 0, Fin 0) | Inr r \<Rightarrow> r)"

subsection \<open>scanForEdge\<close>

text \<open>\<^verbatim>\<open>toLowerCase\<close> and \<^verbatim>\<open>includes\<close> (here \<open>includes_str\<close>), on ASCII text.\<close>

definition lower_char :: "char \<Rightarrow> char" where
  "lower_char c =
     (let n = (of_char c :: nat) in if 65 \<le> n \<and> n \<le> 90 then char_of (n + 32) else c)"

definition toLowerCase :: "string \<Rightarrow> string" where
  "toLowerCase s = map lower_char s"

fun starts_with :: "string \<Rightarrow> string \<Rightarrow> bool" where
  "starts_with hay [] = True"
| "starts_with [] (n # ns) = False"
| "starts_with (h # hs) (n # ns) = (h = n \<and> starts_with hs ns)"

fun includes_str :: "string \<Rightarrow> string \<Rightarrow> bool" where
  "includes_str [] needle = (needle = [])"
| "includes_str (h # hs) needle = (starts_with (h # hs) needle \<or> includes_str hs needle)"

definition matches :: "PolymarketMarket \<Rightarrow> CoinPrice \<Rightarrow> bool" where
  "matches m p =
     (includes_str (toLowerCase (question m)) (toLowerCase (symbol p)) \<or>
      includes_str (toLowerCase (question m)) (toLowerCase (coin_id p)))"

text \<open>
  The binary pricing lines of the loop body (\<^verbatim>\<open>sqrtT\<close>, \<^verbatim>\<open>d2\<close>, \<^verbatim>\<open>Nd2\<close>,
  \<^verbatim>\<open>C_bin\<close>, \<^verbatim>\<open>modelFair\<close>), with the constants \<^verbatim>\<open>SIGMA\<close>, \<^verbatim>\<open>T_EXP\<close>
  and \<^verbatim>\<open>R_FREE\<close> as arguments.
\<close>

definition binary_d2 :: "real \<Rightarrow> real \<Rightarrow> real \<Rightarrow> real" where
  "binary_d2 sigma T r =
     (let sqrtT = sqrt T in (r - 0.5 * sigma * sigma) * T / (sigma * sqrtT))"

definition binaryFair :: "real \<Rightarrow> real \<Rightarrow> real \<Rightarrow> real" where
  "binaryFair sigma T r =
     (let d2 = binary_d2 sigma T r;
          Nd2 = normalCDF d2;
          C_bin = exp (- r * T) * Nd2
      in C_bin * 100)"

text \<open>
  The body of the loop over the crypto markets, with the three pricing constants as
  arguments: the signals and the log entries one market adds. A yes-price that passes
  the test is a finite number, since \<^verbatim>\<open>parseOutcomePrices\<close> never returns NaN and an
  infinity fails the test (\<open>band_is_finite\<close> below); the last case is never taken.
\<close>

definition scan_market_with ::
  "real \<Rightarrow> real \<Rightarrow> real \<Rightarrow> CoinPrice list \<Rightarrow> PolymarketMarket \<Rightarrow>
     EdgeSignal list \<times> TradingLog list" where
  "scan_market_with sigma T r prices mkt =
     (let yesPrice = fst (parseOutcomePrices (outcomePrices mkt)) in
      if js_le yesPrice (Fin 0.02) \<or> js_ge yesPrice (Fin 0.98) then ([], [])
      else
        case yesPrice of
          Fin y \<Rightarrow>
            let mktPrice = y * 100;
                matchedCoin = find (matches mkt) prices;
                asset = (case matchedCoin of None \<Rightarrow> ''BTC'' | Some c \<Rightarrow> symbol c);
                d2 = binary_d2 sigma T r;
                Nd2 = normalCDF d2;
                modelFair = binaryFair sigma T r;
                divergence = modelFair - mktPrice;
                scanLog = \<lparr>action = SCAN, log_asset = Some asset,
                             details = ScanDetails d2 Nd2 SIGMA_B mktPrice modelFair\<rparr>
            in
              if \<bar>divergence\<bar> \<ge> EDGE_THRESHOLD then
                let side = (if divergence > 0 then BUY else SELL) in
                  ([\<lparr>asset = asset, market = mkt, modelFair = modelFair,
                      mktPrice = mktPrice, divergence = divergence, side = side,
                      d2 = d2, Nd2 = Nd2\<rparr>],
                   [scanLog,
                    \<lparr>action = TRADE, log_asset = Some asset,
                     details = EdgeDetails side \<bar>divergence\<bar> modelFair mktPrice\<rparr>])
              else
                ([],
                 [scanLog,
                  \<lparr>action = SKIP, log_asset = Some asset,
                   details = BelowThreshold \<bar>divergence\<bar> EDGE_THRESHOLD\<rparr>])
        | _ \<Rightarrow> ([], []))"

definition scan_market :: "CoinPrice list \<Rightarrow> PolymarketMarket \<Rightarrow>
     EdgeSignal list \<times> TradingLog list" where
  "scan_market = scan_market_with SIGMA_c T_EXP R_FREE"

fun scan_loop :: "CoinPrice list \<Rightarrow> PolymarketMarket list \<Rightarrow>
     EdgeSignal list \<times> TradingLog list" where
  "scan_loop prices [] = ([], [])"
| "scan_loop prices (m # ms) =
     (let (sigs, logs) = scan_market prices m;
          (sigs', logs') = scan_loop prices ms
      in (sigs @ sigs', logs @ logs'))"

text \<open>
  \<^verbatim>\<open>scanForEdge\<close>. The two arguments are the outcomes of \<^verbatim>\<open>fetchPrices()\<close> and
  of \<^verbatim>\<open>fetchCategorizedMarkets()\<close> (its \<^verbatim>\<open>crypto\<close> list); \<open>Inl\<close> is a
  rejected promise. \<^verbatim>\<open>Promise.all\<close> is awaited outside any \<^verbatim>\<open>try\<close>, so a
  rejection leaves the function.
\<close>

definition scanForEdge ::
  "error + CoinPrice list \<Rightarrow> error + PolymarketMarket list \<Rightarrow>
     error + (EdgeSignal list \<times> TradingLog list)" where
  "scanForEdge prices_res markets_res =
     (case prices_res of
        Inl e \<Rightarrow> Inl e
      | Inr prices \<Rightarrow>
          (case markets_res of
             Inl e \<Rightarrow> Inl e
           | Inr cryptoMarkets \<Rightarrow> Inr (scan_loop prices cryptoMarkets)))"

subsection \<open>sizePositions\<close>

text \<open>The per-signal quantities of the sizing loop, named as the source names them.\<close>

definition kellyRaw_of :: "EdgeSignal \<Rightarrow> real" where
  "kellyRaw_of sg =
     (let p = modelFair sg / 100;
          mktP = mktPrice sg / 100;
          b = (if side sg = BUY then 1 / mktP - 1 else 1 / (1 - mktP) - 1);
          q = 1 - p
      in (p * b - q) / b)"

definition kellyFraction_of :: "EdgeSignal \<Rightarrow> real" where
  "kellyFraction_of sg = max 0 (min (kellyRaw_of sg * KELLY_FRACTION) MAX_POSITION_PCT)"

definition sizeUSD_of :: "real \<Rightarrow> EdgeSignal \<Rightarrow> real" where
  "sizeUSD_of balance sg =
     (let maxPerPosition = balance * MAX_POSITION_PCT
      in min (balance * kellyFraction_of sg) maxPerPosition)"

definition price_of :: "EdgeSignal \<Rightarrow> real" where
  "price_of sg =
     (let mktP = mktPrice sg / 100 in if side sg = BUY then mktP else 1 - mktP)"

definition shares_of :: "real \<Rightarrow> EdgeSignal \<Rightarrow> int" where
  "shares_of balance sg = \<lfloor>sizeUSD_of balance sg / price_of sg\<rfloor>"

text \<open>
  The loop over the signals: the positions pushed and the log entries pushed. The running
  exposure starts from the open orders and may be infinite or NaN.
\<close>

fun size_loop :: "real \<Rightarrow> jsnum \<Rightarrow> EdgeSignal list \<Rightarrow>
     SizedPosition list \<times> TradingLog list" where
  "size_loop balance totalExposure [] = ([], [])"
| "size_loop balance totalExposure (sg # rest) =
     (if js_ge totalExposure (Fin (balance * MAX_TOTAL_EXPOSURE_PCT)) then
        ([], [\<lparr>action = HALT, log_asset = None,
               details = MaxExposure
                 (jmul (jdiv totalExposure (Fin balance)) (Fin 100))\<rparr>])
      else if kellyFraction_of sg \<le> 0 then size_loop balance totalExposure rest
      else if shares_of balance sg \<le> 0 then size_loop balance totalExposure rest
      else
        (let (positions, logs) =
               size_loop balance (jadd totalExposure (Fin (sizeUSD_of balance sg))) rest
         in (\<lparr>signal = sg, kellyFraction = kellyFraction_of sg,
               sizeUSD = sizeUSD_of balance sg, shares = shares_of balance sg\<rparr> # positions,
             logs)))"

text \<open>
  The exposure of the open orders. \<open>Inl\<close> is a failed \<^verbatim>\<open>getOpenOrders()\<close>: the
  \<^verbatim>\<open>catch\<close> block is empty and the total stays 0.
\<close>

definition seedExposure :: "error + OpenOrder list \<Rightarrow> jsnum" where
  "seedExposure openOrders_res =
     (case openOrders_res of
        Inl e \<Rightarrow> Fin 0
      | Inr openOrders \<Rightarrow>
          fold (\<lambda>order total. jadd total (jmul (original_size order) (price order)))
            openOrders (Fin 0))"

text \<open>
  \<^verbatim>\<open>sizePositions\<close>. The first argument is the outcome of \<^verbatim>\<open>getClobBalance()\<close>
  with \<^verbatim>\<open>parseFloat\<close> applied to the balance string (\<open>None\<close> is NaN), the second the
  outcome of \<^verbatim>\<open>getOpenOrders()\<close>.
\<close>

definition sizePositions ::
  "error + real option \<Rightarrow> error + OpenOrder list \<Rightarrow> EdgeSignal list \<Rightarrow>
     SizedPosition list \<times> TradingLog list" where
  "sizePositions balance_res openOrders_res signals =
     (case balance_res of
        Inl e \<Rightarrow>
          ([], [\<lparr>action = ERROR, log_asset = None,
                 details = Message ''Failed to fetch CLOB balance''\<rparr>])
      | Inr balanceData \<Rightarrow>
          (let balance = or_zero balanceData in
           if balance \<le> 0 then
             ([], [\<lparr>action = HALT, log_asset = None,
                    details = Message ''Zero trading balance''\<rparr>])
           else size_loop balance (seedExposure openOrders_res) signals))"

subsection \<open>executeTrades\<close>

text \<open>\<^verbatim>\<open>err instanceof Error ? err.message : 'Unknown'\<close>.\<close>

fun err_message :: "error \<Rightarrow> string" where
  "err_message (TransportError m) = m"
| "err_message SyntaxError = ''SyntaxError''"
| "err_message TypeError = ''TypeError''"
| "err_message NonError = ''Unknown''"

definition exec_price :: "SizedPosition \<Rightarrow> jsnum" where
  "exec_price pos =
     (let yesPrice = fst (parseOutcomePrices (outcomePrices (market (signal pos))))
      in if side (signal pos) = BUY then yesPrice else jsub (Fin 1) yesPrice)"

definition order_of :: "SizedPosition \<Rightarrow> ClobOrder" where
  "order_of pos =
     \<lparr>tokenID = market_id (market (signal pos)),
      order_price = jdiv (jround (jmul (exec_price pos) (Fin 100))) (Fin 100),
      order_size = shares pos,
      order_side = side (signal pos)\<rparr>"

text \<open>
  The venue is the outcome of each \<^verbatim>\<open>placeOrder\<close> call, by the number of the call
  and the order sent; \<open>Inl\<close> is a rejected promise. The loop returns the results and the
  log entries pushed.
\<close>

type_synonym venue = "nat \<Rightarrow> ClobOrder \<Rightarrow> error + ClobOrderResponse"

fun exec_loop :: "venue \<Rightarrow> nat \<Rightarrow> SizedPosition list \<Rightarrow>
     TradeResult list \<times> TradingLog list" where
  "exec_loop placeOrder i [] = ([], [])"
| "exec_loop placeOrder i (pos # rest) =
     (let (results, logs) = exec_loop placeOrder (Suc i) rest in
      case placeOrder i (order_of pos) of
        Inr response \<Rightarrow>
          (\<lparr>position = pos, result_orderID = orderID response,
             result_status = status response\<rparr> # results,
           \<lparr>action = TRADE, log_asset = Some (asset (signal pos)),
             details = OrderPlaced (side (signal pos)) (jmul (exec_price pos) (Fin 100))
                         (real_of_int (Math_round (sizeUSD pos)))
                         \<bar>divergence (signal pos)\<bar> (kellyFraction pos * 100)
                         (orderID response)\<rparr> # logs)
      | Inl err \<Rightarrow>
          (results,
           \<lparr>action = ERROR, log_asset = Some (asset (signal pos)),
             details = OrderFailed (err_message err)\<rparr> # logs))"

definition executeTrades :: "venue \<Rightarrow> SizedPosition list \<Rightarrow>
     TradeResult list \<times> TradingLog list" where
  "executeTrades placeOrder positions = exec_loop placeOrder 0 positions"

subsection \<open>monitorPositions and runTradingCycle\<close>

fun monitor_loop :: "OpenOrder list \<Rightarrow> TradingLog list" where
  "monitor_loop [] = []"
| "monitor_loop (order # rest) =
     (let entryPrice = price order; sizeMatched = size_matched order in
      if js_gt sizeMatched (Fin 0) then
        \<lparr>action = SCAN, log_asset = None,
         details = Monitoring (asset_id order) (open_side order)
                     (jmul entryPrice (Fin 100)) sizeMatched\<rparr> # monitor_loop rest
      else monitor_loop rest)"

definition monitorPositions :: "error + OpenOrder list \<Rightarrow> TradingLog list" where
  "monitorPositions openOrders_res =
     (case openOrders_res of
        Inr openOrders \<Rightarrow> monitor_loop openOrders
      | Inl err \<Rightarrow>
          [\<lparr>action = ERROR, log_asset = None,
            details = MonitorFailed (err_message err)\<rparr>])"

text \<open>The outcome of every external call of one cycle.\<close>

record world =
  prices_res :: "error + CoinPrice list"
  markets_res :: "error + PolymarketMarket list"
  balance_res :: "error + real option"
  sizing_orders_res :: "error + OpenOrder list"
  placeOrder :: venue
  monitor_orders_res :: "error + OpenOrder list"

text \<open>\<^verbatim>\<open>runTradingCycle\<close>: \<open>Inr\<close> the returned log, \<open>Inl\<close> a rejected promise.\<close>

definition runTradingCycle :: "world \<Rightarrow> error + TradingLog list" where
  "runTradingCycle w =
     (case scanForEdge (prices_res w) (markets_res w) of
        Inl e \<Rightarrow> Inl e
      | Inr (signals, scanLogs) \<Rightarrow>
          if length signals = 0 then
            Inr (scanLogs @
                 [\<lparr>action = SKIP, log_asset = None,
                   details = Message ''No edge signals found''\<rparr>])
          else
            (let (positions, sizeLogs) =
                   sizePositions (balance_res w) (sizing_orders_res w) signals in
             if length positions = 0 then
               Inr (scanLogs @ sizeLogs @
                    [\<lparr>action = SKIP, log_asset = None,
                      details =
                        Message ''No positions sized (risk limits or zero balance)''\<rparr>])
             else
               (let (results, execLogs) = executeTrades (placeOrder w) positions;
                    monitorLogs = monitorPositions (monitor_orders_res w)
                in Inr (scanLogs @ sizeLogs @ execLogs @ monitorLogs))))"

subsection \<open>The fetchers' failure path\<close>

text \<open>
  \<^verbatim>\<open>fetchPrices\<close> and \<^verbatim>\<open>fetchCategorizedMarkets\<close> (\<^verbatim>\<open>src/lib/market-api.ts\<close>) end
  in the same \<^verbatim>\<open>catch\<close> block: a failed request returns the cached data when the
  module holds some and throws the error again when it holds none. The first argument is
  the cache, the second the outcome of the request.
\<close>

definition fetch_or_stale :: "'a option \<Rightarrow> error + 'a \<Rightarrow> error + 'a" where
  "fetch_or_stale cache fetched =
     (case fetched of
        Inr v \<Rightarrow> Inr v
      | Inl err \<Rightarrow> (case cache of Some stale \<Rightarrow> Inr stale | None \<Rightarrow> Inl err))"

subsection \<open>Quoting (treasury page, \<^verbatim>\<open>derived\<close>)\<close>

text \<open>
  Steps 6 to 9 of \<^verbatim>\<open>derived\<close>: the logit of the fair probability, the
  Avellaneda-Stoikov half-spread, and the bid and ask probabilities. The constants
  \<^verbatim>\<open>GAMMA\<close>, \<^verbatim>\<open>T_EXP\<close>, \<^verbatim>\<open>K_DECAY\<close> and the jittered \<^verbatim>\<open>sigma_b\<close> are
  arguments.
\<close>

definition x_t_of :: "real \<Rightarrow> real" where
  "x_t_of p_t = ln (p_t / (1 - p_t))"

definition delta_x_of :: "real \<Rightarrow> real \<Rightarrow> real \<Rightarrow> real \<Rightarrow> real" where
  "delta_x_of gamma sigma_b T k =
     gamma * sigma_b * sigma_b * T / 2 + (1 / gamma) * ln (1 + gamma / k)"

definition p_bid_of :: "real \<Rightarrow> real \<Rightarrow> real" where
  "p_bid_of x_t delta_x = 1 / (1 + exp (- (x_t - delta_x)))"

definition p_ask_of :: "real \<Rightarrow> real \<Rightarrow> real" where
  "p_ask_of x_t delta_x = 1 / (1 + exp (- (x_t + delta_x)))"

text \<open>The asset label of the loop body: the matched coin's symbol, or the default.\<close>

definition matched_asset :: "CoinPrice list \<Rightarrow> PolymarketMarket \<Rightarrow> string" where
  "matched_asset prices mkt =
     (case find (matches mkt) prices of None \<Rightarrow> ''BTC'' | Some c \<Rightarrow> symbol c)"

subsection \<open>Example inputs\<close>

definition example_market :: "string \<Rightarrow> string \<Rightarrow> PolymarketMarket" where
  "example_market yes no =
     \<lparr>market_id = ''0x51'', question = ''Will Bitcoin close above 70000?'',
      outcomePrices = Some (JArr [JStr yes, JStr no])\<rparr>"

definition example_signal :: "real \<Rightarrow> real \<Rightarrow> side \<Rightarrow> EdgeSignal" where
  "example_signal mf mp sd =
     \<lparr>asset = ''BTC'', market = example_market ''0.5'' ''0.5'',
      modelFair = mf, mktPrice = mp, divergence = mf - mp, side = sd,
      d2 = 0, Nd2 = 0.5\<rparr>"

text \<open>An open order of 78 shares at 0.5: an exposure of 39.\<close>

definition example_order :: OpenOrder where
  "example_order =
     \<lparr>asset_id = ''0x51'', open_side = BUY, price = Fin 0.5, original_size = Fin 78,
      size_matched = Fin 0\<rparr>"

text \<open>An open order whose price string does not start with a number.\<close>

definition unparsed_order :: OpenOrder where
  "unparsed_order =
     \<lparr>asset_id = ''0x51'', open_side = BUY, price = NaN, original_size = Fin 78,
      size_matched = Fin 0\<rparr>"

definition example_position :: "real \<Rightarrow> SizedPosition" where
  "example_position mf =
     \<lparr>signal = example_signal mf 50 BUY, kellyFraction = 0.03, sizeUSD = 3, shares = 6\<rparr>"

text \<open>A venue that rejects call number \<open>k\<close> and accepts every other call.\<close>

definition example_venue :: "nat \<Rightarrow> venue" where
  "example_venue k i order =
     (if i = k then Inl (TransportError ''CLOB POST /order failed (503)'')
      else Inr \<lparr>orderID = ''0xabc'', status = ''live''\<rparr>)"



text \<open>
  A cycle in which the balance lookup fails, with the outcome of the price fetch as
  argument.
\<close>

definition example_world :: "error + CoinPrice list \<Rightarrow> world" where
  "example_world pr =
     \<lparr>prices_res = pr,
      markets_res = Inr [example_market ''0.9'' ''0.1''],
      balance_res = Inl (TransportError ''CLOB GET /balance failed (503)''),
      sizing_orders_res = Inr [],
      placeOrder = example_venue 0,
      monitor_orders_res = Inr []\<rparr>"

subsection \<open>The edge rule in the words of the specification\<close>

text \<open>
  For a market with yes-price \<open>y\<close>, the divergence is the model value minus \<open>100 y\<close>. A
  market is evaluated when \<open>y\<close> lies strictly inside \<open>(0.02, 0.98)\<close>. An evaluated market
  whose absolute divergence is at least \<open>EDGE_THRESHOLD\<close> gets one signal, BUY for a
  positive divergence and SELL otherwise, and the log entries SCAN and TRADE; any other
  evaluated market gets SCAN and a SKIP entry that records the edge; a market that is not
  evaluated gets nothing.
\<close>

definition yes_price :: "PolymarketMarket \<Rightarrow> jsnum" where
  "yes_price m = fst (parseOutcomePrices (outcomePrices m))"

definition edge_of :: "real \<Rightarrow> real" where
  "edge_of y = binaryFair SIGMA_c T_EXP R_FREE - y * 100"

definition expected_signals :: "PolymarketMarket \<Rightarrow> (PolymarketMarket \<times> side \<times> real) list" where
  "expected_signals m =
     (case yes_price m of
        Fin y \<Rightarrow>
          if 0.02 < y \<and> y < 0.98 \<and> \<bar>edge_of y\<bar> \<ge> EDGE_THRESHOLD
          then [(m, if edge_of y > 0 then BUY else SELL, edge_of y)] else []
      | _ \<Rightarrow> [])"

definition expected_actions :: "PolymarketMarket \<Rightarrow> action list" where
  "expected_actions m =
     (case yes_price m of
        Fin y \<Rightarrow>
          if 0.02 < y \<and> y < 0.98
          then (if \<bar>edge_of y\<bar> \<ge> EDGE_THRESHOLD then [SCAN, TRADE] else [SCAN, SKIP])
          else []
      | _ \<Rightarrow> [])"

definition expected_skips :: "PolymarketMarket \<Rightarrow> details list" where
  "expected_skips m =
     (case yes_price m of
        Fin y \<Rightarrow>
          if 0.02 < y \<and> y < 0.98 \<and> \<bar>edge_of y\<bar> < EDGE_THRESHOLD
          then [BelowThreshold \<bar>edge_of y\<bar> EDGE_THRESHOLD] else []
      | _ \<Rightarrow> [])"

subsection \<open>The Kelly formula in the words of the specification\<close>



section \<open>Binary pricing\<close>

lemma normalCDF_erfc_term:
  "normalCDF x = 0.5 * (1 + (if x < 0 then - 1 else 1) * (1 - erfc_term x))"
  by (simp add: normalCDF_def Let_def erfc_poly_def erfc_term_def)

lemma erfc_poly_le_1:
  assumes "0 \<le> t" "t \<le> 1"
  shows "erfc_poly t \<le> 1"
proof -
  define Q where "Q = 0.999999999 + 0.745170407 * t + (t * t) * (1.029667143 - 0.391746598 * t)
      + 1.061405429 * (t * t * t * t)"
  have id: "1 - erfc_poly t = 0.000000001 + (1 - t) * Q"
    unfolding erfc_poly_def Q_def by (simp add: field_simps)
  have "0 \<le> 1.029667143 - 0.391746598 * t" using assms by simp
  then have "0 \<le> (t * t) * (1.029667143 - 0.391746598 * t)"
    by (rule mult_nonneg_nonneg [rotated]) simp
  moreover have "0 \<le> 1.061405429 * (t * t * t * t)"
    using assms by (intro mult_nonneg_nonneg) simp_all
  moreover have "0 \<le> 0.745170407 * t" using assms by simp
  ultimately have "0 \<le> Q" unfolding Q_def by simp
  then have "0 \<le> (1 - t) * Q" using assms by (intro mult_nonneg_nonneg) simp_all
  moreover have "(0::real) \<le> 0.000000001" by simp
  ultimately show ?thesis using id by linarith
qed

lemma erfc_poly_ge_0:
  assumes "0 \<le> t" "t \<le> 1"
  shows "0 \<le> erfc_poly t"
proof -
  define u where "u = t * t"
  have u0: "0 \<le> u" unfolding u_def by simp
  have "0 \<le> (t - 0.6845)\<^sup>2" by simp
  then have s1: "0 \<le> u - 1.369 * t + 0.46854025"
    unfolding u_def by (simp add: power2_eq_square algebra_simps)
  have inner: "0.924 \<le> 1.061405429 * u - 1.453152027 * t + 1.421413741"
    using s1 assms by simp
  have "u * 0.924 \<le> u * (1.061405429 * u - 1.453152027 * t + 1.421413741)"
    by (rule mult_left_mono [OF inner u0])
  moreover have "0 \<le> (t - 0.154)\<^sup>2" by simp
  then have s2: "0 \<le> u - 0.308 * t + 0.023716"
    unfolding u_def by (simp add: power2_eq_square algebra_simps)
  ultimately have poly: "0 \<le> 0.254829592 - 0.284496736 * t
      + u * (1.061405429 * u - 1.453152027 * t + 1.421413741)"
    using assms by simp
  have "erfc_poly t = (0.254829592 - 0.284496736 * t
      + u * (1.061405429 * u - 1.453152027 * t + 1.421413741)) * t"
    unfolding erfc_poly_def u_def by (simp add: field_simps)
  then show ?thesis using poly assms by simp
qed

lemma erfc_arg_range:
  "0 \<le> 1 / (1 + 0.3275911 * (\<bar>x\<bar> / sqrt 2)) \<and>
   1 / (1 + 0.3275911 * (\<bar>x\<bar> / sqrt 2)) \<le> (1::real)"
proof -
  define w where "w = 1 + 0.3275911 * (\<bar>x\<bar> / sqrt 2)"
  have "0 \<le> \<bar>x\<bar> / sqrt 2" by simp
  then have "0 \<le> 0.3275911 * (\<bar>x\<bar> / sqrt 2)" by simp
  then have "1 \<le> w" unfolding w_def by simp
  then have "0 \<le> 1 / w \<and> 1 / w \<le> 1" by simp
  then show ?thesis unfolding w_def .
qed

lemma erfc_term_range: "0 \<le> erfc_term x \<and> erfc_term x \<le> 1"
proof -
  define t where "t = 1 / (1 + 0.3275911 * (\<bar>x\<bar> / sqrt 2))"
  define E where "E = exp (- (\<bar>x\<bar> / sqrt 2) * (\<bar>x\<bar> / sqrt 2))"
  have t: "0 \<le> t" "t \<le> 1" using erfc_arg_range [of x] unfolding t_def by simp_all
  have P: "0 \<le> erfc_poly t" "erfc_poly t \<le> 1"
    using erfc_poly_ge_0 [OF t] erfc_poly_le_1 [OF t] by simp_all
  have "0 \<le> (\<bar>x\<bar> / sqrt 2) * (\<bar>x\<bar> / sqrt 2)" by simp
  then have "- (\<bar>x\<bar> / sqrt 2) * (\<bar>x\<bar> / sqrt 2) \<le> 0" by simp
  then have E: "0 \<le> E" "E \<le> 1" unfolding E_def by simp_all
  have "erfc_poly t * E \<le> 1 * 1"
    by (rule mult_mono [OF P(2) E(2)]) (simp_all add: E(1))
  moreover have "0 \<le> erfc_poly t * E" by (rule mult_nonneg_nonneg [OF P(1) E(1)])
  ultimately show ?thesis unfolding erfc_term_def t_def E_def by simp
qed

lemma normalCDF_range: "0 \<le> normalCDF x \<and> normalCDF x \<le> 1"
  unfolding normalCDF_erfc_term using erfc_term_range [of x] by (simp split: if_splits)

lemma normalCDF_neg: "x < 0 \<Longrightarrow> normalCDF x = 0.5 * erfc_term x"
  unfolding normalCDF_erfc_term by simp

lemma binary_d2_sq:
  assumes "0 < sigma" "0 < T"
  shows "(binary_d2 sigma T r)\<^sup>2 = (r - 0.5 * sigma * sigma)\<^sup>2 * T / (sigma * sigma)"
proof -
  have sq: "sqrt T * sqrt T = T" using assms by simp
  have "(binary_d2 sigma T r)\<^sup>2 =
      ((r - 0.5 * sigma * sigma) * T)\<^sup>2 / ((sigma * sigma) * (sqrt T * sqrt T))"
    unfolding binary_d2_def Let_def by (simp add: power2_eq_square)
  also have "\<dots> = ((r - 0.5 * sigma * sigma)\<^sup>2 * (T * T)) / ((sigma * sigma) * T)"
    unfolding sq by (simp add: power2_eq_square algebra_simps)
  also have "\<dots> = (r - 0.5 * sigma * sigma)\<^sup>2 * T / (sigma * sigma)"
    using assms by simp
  finally show ?thesis .
qed

lemma binary_d2_neg:
  assumes "0 < sigma" "0 < T" "r < 0"
  shows "binary_d2 sigma T r < 0"
proof -
  have "0 < sigma * sigma" using assms by simp
  then have "r - 0.5 * sigma * sigma < 0" using assms(3) by simp
  then have "(r - 0.5 * sigma * sigma) * T < 0" using assms(2) by (simp add: mult_neg_pos)
  moreover have "0 < sigma * sqrt T" using assms by simp
  ultimately show ?thesis unfolding binary_d2_def Let_def by (simp add: divide_neg_pos)
qed

lemma discount_tail:
  assumes "0 < sigma" "0 < T" "r < 0"
  shows "- r * T - (binary_d2 sigma T r)\<^sup>2 / 2 \<le> 0"
proof -
  have s2: "0 < sigma * sigma" using assms by simp
  have "0 \<le> (r + 0.5 * sigma * sigma)\<^sup>2" by simp
  then have "- 2 * r * (sigma * sigma) \<le> (r - 0.5 * sigma * sigma)\<^sup>2"
    by (simp add: power2_eq_square algebra_simps)
  then have "- 2 * r \<le> (r - 0.5 * sigma * sigma)\<^sup>2 / (sigma * sigma)"
    using s2 by (simp add: pos_le_divide_eq)
  then have "(- 2 * r) * T \<le> (r - 0.5 * sigma * sigma)\<^sup>2 / (sigma * sigma) * T"
    using assms(2) by (intro mult_right_mono) simp_all
  then have "- 2 * r * T \<le> (binary_d2 sigma T r)\<^sup>2"
    unfolding binary_d2_sq [OF assms(1,2)] by simp
  then show ?thesis by simp
qed

lemma binaryFair_range:
  assumes "0 < sigma" "0 < T"
  shows "0 \<le> binaryFair sigma T r \<and> binaryFair sigma T r \<le> 100"
proof -
  let ?d = "binary_d2 sigma T r"
  have N: "0 \<le> normalCDF ?d" "normalCDF ?d \<le> 1" using normalCDF_range [of ?d] by simp_all
  have lower: "0 \<le> exp (- r * T) * normalCDF ?d" using N(1) by simp
  have upper: "exp (- r * T) * normalCDF ?d \<le> 1"
  proof (cases "r < 0")
    case False
    then have "- r * T \<le> 0" using assms(2) by (simp add: mult_nonneg_nonneg)
    then have "exp (- r * T) \<le> 1" by simp
    then have "exp (- r * T) * normalCDF ?d \<le> 1 * 1"
      using N by (intro mult_mono) simp_all
    then show ?thesis by simp
  next
    case True
    define z where "z = \<bar>?d\<bar> / sqrt 2"
    define P where "P = erfc_poly (1 / (1 + 0.3275911 * z))"
    have dneg: "?d < 0" by (rule binary_d2_neg [OF assms True])
    have zz: "z * z = ?d\<^sup>2 / 2" unfolding z_def by (simp add: power2_eq_square)
    have t: "0 \<le> 1 / (1 + 0.3275911 * z)" "1 / (1 + 0.3275911 * z) \<le> 1"
      using erfc_arg_range [of ?d] unfolding z_def by simp_all
    have P: "0 \<le> P" "P \<le> 1"
      using erfc_poly_ge_0 [OF t] erfc_poly_le_1 [OF t] unfolding P_def by simp_all
    have "exp (- r * T) * exp (- z * z) = exp (- r * T - ?d\<^sup>2 / 2)"
      using zz by (simp add: exp_add [symmetric])
    also have "\<dots> \<le> 1" using discount_tail [OF assms True] by simp
    finally have E: "exp (- r * T) * exp (- z * z) \<le> 1" .
    define X where "X = exp (- r * T) * exp (- z * z)"
    have X: "0 \<le> X" "X \<le> 1" using E unfolding X_def by simp_all
    have "erfc_term ?d = P * exp (- z * z)" unfolding erfc_term_def P_def z_def ..
    then have "exp (- r * T) * normalCDF ?d = 0.5 * (P * X)"
      unfolding normalCDF_neg [OF dneg] X_def by simp
    moreover have "P * X \<le> 1 * 1"
      using P X by (intro mult_mono) simp_all
    ultimately show ?thesis by linarith
  qed
  show ?thesis unfolding binaryFair_def Let_def using lower upper by simp
qed

lemma erfc_poly_near_1:
  assumes "0 \<le> t" "t \<le> 1"
  shows "1 - 0.000000001 - 4 * (1 - t) \<le> erfc_poly t"
proof -
  define Q where "Q = 0.999999999 + 0.745170407 * t + (t * t) * (1.029667143 - 0.391746598 * t)
      + 1.061405429 * (t * t * t * t)"
  have id: "1 - erfc_poly t = 0.000000001 + (1 - t) * Q"
    unfolding erfc_poly_def Q_def by (simp add: field_simps)
  have tt: "0 \<le> t * t" "t * t \<le> 1" using assms by (simp_all add: mult_le_one)
  have "1.029667143 - 0.391746598 * t \<le> 1.029667143" using assms by simp
  moreover have "0 \<le> 1.029667143 - 0.391746598 * t" using assms by simp
  ultimately have "(t * t) * (1.029667143 - 0.391746598 * t) \<le> 1 * 1.029667143"
    using tt by (intro mult_mono) simp_all
  moreover have "(t * t) * (t * t) \<le> 1 * 1" using tt by (intro mult_mono) simp_all
  then have "1.061405429 * (t * t * t * t) \<le> 1.061405429" by (simp add: mult.assoc)
  moreover have "0.745170407 * t \<le> 0.745170407" using assms by simp
  ultimately have "Q \<le> 4" unfolding Q_def by simp
  then have "(1 - t) * Q \<le> (1 - t) * 4" using assms by (intro mult_left_mono) simp_all
  then show ?thesis using id by simp
qed

lemma engine_d2_bounds:
  "- 0.00051 \<le> binary_d2 SIGMA_c T_EXP R_FREE \<and> binary_d2 SIGMA_c T_EXP R_FREE < 0"
proof -
  have T: "0 < T_EXP" by (simp add: T_EXP_def)
  have s0: "0 < sqrt T_EXP" using T by simp
  have "T_EXP \<le> (0.0031::real)\<^sup>2" by (simp add: T_EXP_def power2_eq_square)
  then have s1: "sqrt T_EXP \<le> 0.0031" by (intro real_le_lsqrt) simp_all
  have q: "T_EXP / sqrt T_EXP = sqrt T_EXP" using T by (simp add: real_div_sqrt)
  have "binary_d2 SIGMA_c T_EXP R_FREE =
      ((R_FREE - 0.5 * SIGMA_c * SIGMA_c) / SIGMA_c) * (T_EXP / sqrt T_EXP)"
    unfolding binary_d2_def Let_def by simp
  also have "\<dots> = - 0.1634 * sqrt T_EXP"
    unfolding q by (simp add: SIGMA_c_def R_FREE_def)
  finally show ?thesis using s0 s1 by simp
qed

lemma engine_fair_bounds:
  "49 < binaryFair SIGMA_c T_EXP R_FREE \<and> binaryFair SIGMA_c T_EXP R_FREE \<le> 50"
proof -
  define d where "d = binary_d2 SIGMA_c T_EXP R_FREE"
  define z where "z = \<bar>d\<bar> / sqrt 2"
  define t where "t = 1 / (1 + 0.3275911 * z)"
  have d: "- 0.00051 \<le> d" "d < 0" using engine_d2_bounds unfolding d_def by simp_all
  define a where "a = \<bar>d\<bar>"
  have a: "0 \<le> a" "a \<le> 0.00051" using d unfolding a_def by simp_all
  have "1 \<le> sqrt (2::real)" by simp
  then have "a / sqrt 2 \<le> a / 1" using a(1) by (intro divide_left_mono) simp_all
  then have "a / sqrt 2 \<le> 0.00051" using a(2) by linarith
  moreover have "0 \<le> a / sqrt 2" using a(1) by simp
  moreover have "z = a / sqrt 2" unfolding z_def a_def ..
  ultimately have z: "0 \<le> z" "z \<le> 0.00051" by (simp_all only:)
  have t01: "0 \<le> t" "t \<le> 1" using erfc_arg_range [of d] unfolding t_def z_def by simp_all
  have w: "1 \<le> 1 + 0.3275911 * z" "1 + 0.3275911 * z \<le> 1.0002" using z by simp_all
  have "1 - t = (0.3275911 * z) / (1 + 0.3275911 * z)"
    unfolding t_def using w(1) by (simp add: field_simps)
  also have "\<dots> \<le> (0.3275911 * z) / 1"
    using w(1) z(1) by (intro divide_left_mono) simp_all
  finally have "1 - t \<le> 0.0002" using z by simp
  then have P: "0.999 \<le> erfc_poly t" using erfc_poly_near_1 [OF t01] by simp
  have "z * z \<le> 0.00051 * 0.00051" using z by (intro mult_mono) simp_all
  then have "1 + (- z * z) \<ge> 0.999" by simp
  moreover have "1 + (- z * z) \<le> exp (- z * z)" by (rule exp_ge_add_one_self)
  ultimately have E: "0.999 \<le> exp (- z * z)" by linarith
  have "0.999 * 0.999 \<le> erfc_poly t * exp (- z * z)"
    using P E by (intro mult_mono) simp_all
  moreover have "erfc_term d = erfc_poly t * exp (- z * z)"
    unfolding erfc_term_def t_def z_def ..
  ultimately have lo: "0.998 \<le> erfc_term d" by simp
  have hi: "erfc_term d \<le> 1" using erfc_term_range [of d] by simp
  have N: "normalCDF d = 0.5 * erfc_term d" by (rule normalCDF_neg [OF d(2)])
  have rT: "0 \<le> R_FREE * T_EXP" "R_FREE * T_EXP \<le> 0.001"
    by (simp_all add: R_FREE_def T_EXP_def)
  have "1 + (- R_FREE * T_EXP) \<le> exp (- R_FREE * T_EXP)" by (rule exp_ge_add_one_self)
  then have D: "0.999 \<le> exp (- R_FREE * T_EXP)" "exp (- R_FREE * T_EXP) \<le> 1"
    using rT by simp_all
  have "0.999 * 0.998 \<le> exp (- R_FREE * T_EXP) * erfc_term d"
    using D lo by (intro mult_mono) simp_all
  moreover have "exp (- R_FREE * T_EXP) * erfc_term d \<le> 1 * 1"
    using D hi lo by (intro mult_mono) simp_all
  moreover have "binaryFair SIGMA_c T_EXP R_FREE = 50 * (exp (- R_FREE * T_EXP) * erfc_term d)"
    unfolding binaryFair_def Let_def d_def [symmetric] N by simp
  ultimately show ?thesis by simp
qed

lemma normalCDF_0: "normalCDF 0 = 0.5000000005"
  by (simp add: normalCDF_def Let_def)

lemma fair_not_monotone: "binaryFair 1 1 (7/2) < binaryFair 1 1 (1/2)"
proof -
  have d0: "binary_d2 1 1 (1/2) = 0" by (simp add: binary_d2_def)
  have f1: "binaryFair 1 1 (1/2) = exp (- (1/2)) * 50.00000005"
    by (simp add: binaryFair_def Let_def d0 normalCDF_0)
  have "normalCDF (binary_d2 1 1 (7/2)) \<le> 1" using normalCDF_range by simp
  then have "exp (- (7/2)) * normalCDF (binary_d2 1 1 (7/2)) \<le> exp (- (7/2)) * 1"
    by (intro mult_left_mono) simp_all
  then have f2: "binaryFair 1 1 (7/2) \<le> exp (- (7/2)) * 100"
    by (simp add: binaryFair_def Let_def)
  have "(1::real) + 3 \<le> exp 3" by (rule exp_ge_add_one_self)
  then have "exp (- (3::real)) \<le> 1 / 4" by (simp add: exp_minus field_simps)
  moreover have "exp (- (7/2)) = exp (- (1/2)) * exp (- (3::real))"
    by (simp add: exp_add [symmetric])
  ultimately have "exp (- (7/2)) * 100 \<le> exp (- (1/2)) * (25::real)"
    by (simp add: mult_left_mono)
  moreover have "exp (- (1/2)) * (25::real) < exp (- (1/2)) * 50.00000005"
    by (intro mult_strict_left_mono) simp_all
  ultimately show ?thesis using f1 f2 by linarith
qed

text \<open>
  C5, as stated: for fixed \<open>\<sigma>\<close> and \<open>T\<close> the fair value is monotonically
  non-decreasing in \<open>r\<close>. It fails: with \<open>\<sigma> = T = 1\<close> the value at \<open>r = 1/2\<close> is
  larger than the value at \<open>r = 7/2\<close>, where the discount factor has taken over.
\<close>

theorem binaryFair_monotone_counterexample:
  "(0::real) < 1 \<and> (1/2::real) \<le> 7/2 \<and>
   \<not> binaryFair 1 1 (1/2) \<le> binaryFair 1 1 (7/2)"
  using fair_not_monotone by simp

text \<open>
  C5, amended. For all \<open>\<sigma> > 0\<close>, \<open>T > 0\<close> and every \<open>r\<close> the fair value
  \<open>exp (- r T) N(d2) 100\<close>, with \<open>N\<close> the approximation the engine computes, lies in
  \<open>[0, 100]\<close>. Nothing is claimed about monotonicity in \<open>r\<close>.
\<close>

theorem binaryFair_in_range:
  assumes "0 < sigma" and "0 < T"
  shows "0 \<le> binaryFair sigma T r \<and> binaryFair sigma T r \<le> 100"
  using assms by (rule binaryFair_range)

theorem binaryFair_in_range_witness:
  "0 < SIGMA_c \<and> 0 < T_EXP \<and>
   0 \<le> binaryFair SIGMA_c T_EXP R_FREE \<and> binaryFair SIGMA_c T_EXP R_FREE \<le> 100"
proof -
  have h1: "0 < SIGMA_c" by (simp add: SIGMA_c_def)
  have h2: "0 < T_EXP" by (simp add: T_EXP_def)
  show ?thesis using h1 h2 binaryFair_in_range [OF h1 h2, of R_FREE] by simp
qed

section \<open>Edge detection\<close>




lemma band_is_finite:
  "\<not> js_le p (Fin lo) \<Longrightarrow> \<not> js_ge p (Fin hi) \<Longrightarrow> p \<noteq> NaN \<Longrightarrow>
     \<exists>y. p = Fin y \<and> lo < y \<and> y < hi"
  by (cases p) (simp_all add: js_ge_def)

lemma scan_market_with_not_evaluated:
  assumes "\<And>y. fst (parseOutcomePrices (outcomePrices m)) = Fin y \<Longrightarrow> y \<le> 0.02 \<or> y \<ge> 0.98"
  shows "scan_market_with sigma T r prices m = ([], [])"
proof (cases "fst (parseOutcomePrices (outcomePrices m))")
  case (Fin y)
  with assms [of y] show ?thesis
    by (auto simp: scan_market_with_def Let_def js_ge_def)
qed (simp_all add: scan_market_with_def Let_def js_ge_def)

lemma scan_market_with_signal:
  assumes "fst (parseOutcomePrices (outcomePrices m)) = Fin y"
    and "0.02 < y" and "y < 0.98"
    and "\<bar>binaryFair sigma T r - y * 100\<bar> \<ge> EDGE_THRESHOLD"
  shows "scan_market_with sigma T r prices m =
    ([\<lparr>asset = matched_asset prices m, market = m, modelFair = binaryFair sigma T r,
        mktPrice = y * 100, divergence = binaryFair sigma T r - y * 100,
        side = (if binaryFair sigma T r - y * 100 > 0 then BUY else SELL),
        d2 = binary_d2 sigma T r, Nd2 = normalCDF (binary_d2 sigma T r)\<rparr>],
     [\<lparr>action = SCAN, log_asset = Some (matched_asset prices m),
        details = ScanDetails (binary_d2 sigma T r) (normalCDF (binary_d2 sigma T r)) SIGMA_B
          (y * 100) (binaryFair sigma T r)\<rparr>,
      \<lparr>action = TRADE, log_asset = Some (matched_asset prices m),
        details = EdgeDetails (if binaryFair sigma T r - y * 100 > 0 then BUY else SELL)
          \<bar>binaryFair sigma T r - y * 100\<bar> (binaryFair sigma T r) (y * 100)\<rparr>])"
proof -
  have band: "\<not> (js_le (Fin y) (Fin 0.02) \<or> js_ge (Fin y) (Fin 0.98))"
    using assms(2,3) by (simp add: js_ge_def)
  show ?thesis
    unfolding scan_market_with_def Let_def matched_asset_def assms(1)
    using band assms(4) by (simp only: if_False if_True jsnum.case)
qed

lemma scan_market_with_skip:
  assumes "fst (parseOutcomePrices (outcomePrices m)) = Fin y"
    and "0.02 < y" and "y < 0.98"
    and "\<bar>binaryFair sigma T r - y * 100\<bar> < EDGE_THRESHOLD"
  shows "scan_market_with sigma T r prices m =
    ([],
     [\<lparr>action = SCAN, log_asset = Some (matched_asset prices m),
        details = ScanDetails (binary_d2 sigma T r) (normalCDF (binary_d2 sigma T r)) SIGMA_B
          (y * 100) (binaryFair sigma T r)\<rparr>,
      \<lparr>action = SKIP, log_asset = Some (matched_asset prices m),
        details = BelowThreshold \<bar>binaryFair sigma T r - y * 100\<bar> EDGE_THRESHOLD\<rparr>])"
proof -
  have band: "\<not> (js_le (Fin y) (Fin 0.02) \<or> js_ge (Fin y) (Fin 0.98))"
    using assms(2,3) by (simp add: js_ge_def)
  have below: "\<not> \<bar>binaryFair sigma T r - y * 100\<bar> \<ge> EDGE_THRESHOLD"
    using assms(4) by simp
  show ?thesis
    unfolding scan_market_with_def Let_def matched_asset_def assms(1)
    using band below by (simp only: if_False jsnum.case)
qed

lemma example_market_prices:
  "parseOutcomePrices (outcomePrices (example_market ''0.5'' ''0.5'')) = (Fin 0.5, Fin 0.5)"
  "parseOutcomePrices (outcomePrices (example_market ''5e-1'' ''0.5'')) = (Fin 0.5, Fin 0.5)"
  "parseOutcomePrices (outcomePrices (example_market ''0.9'' ''0.1'')) = (Fin 0.9, Fin 0.1)"
  "parseOutcomePrices (outcomePrices (example_market ''0.01'' ''0.99'')) =
     (Fin 0.01, Fin 0.99)"
  by code_simp+

lemma scan_loop_concat:
  "scan_loop prices ms =
     (concat (map (\<lambda>m. fst (scan_market prices m)) ms),
      concat (map (\<lambda>m. snd (scan_market prices m)) ms))"
  by (induction ms) (simp_all split: prod.splits)

lemma scan_market_expected:
  "map (\<lambda>sg. (market sg, side sg, divergence sg)) (fst (scan_market prices m)) =
     expected_signals m \<and>
   map action (snd (scan_market prices m)) = expected_actions m \<and>
   map details (filter (\<lambda>l. action l = SKIP) (snd (scan_market prices m))) =
     expected_skips m"
proof (cases "\<exists>y. yes_price m = Fin y \<and> 0.02 < y \<and> y < 0.98")
  case False
  then have "\<And>y. fst (parseOutcomePrices (outcomePrices m)) = Fin y \<Longrightarrow>
      y \<le> 0.02 \<or> y \<ge> 0.98"
    unfolding yes_price_def by force
  then have "scan_market prices m = ([], [])"
    unfolding scan_market_def by (rule scan_market_with_not_evaluated)
  moreover have "expected_signals m = [] \<and> expected_actions m = [] \<and> expected_skips m = []"
    using False
    by (auto simp: expected_signals_def expected_actions_def expected_skips_def
        split: jsnum.splits)
  ultimately show ?thesis by simp
next
  case True
  then obtain y where y: "yes_price m = Fin y" "0.02 < y" "y < 0.98" by blast
  then have p: "fst (parseOutcomePrices (outcomePrices m)) = Fin y"
    by (simp add: yes_price_def)
  show ?thesis
  proof (cases "\<bar>binaryFair SIGMA_c T_EXP R_FREE - y * 100\<bar> \<ge> EDGE_THRESHOLD")
    case True
    show ?thesis
      unfolding scan_market_def scan_market_with_signal [OF p y(2,3) True]
      using y True
      by (simp add: expected_signals_def expected_actions_def expected_skips_def edge_of_def)
  next
    case False
    then have lt: "\<bar>binaryFair SIGMA_c T_EXP R_FREE - y * 100\<bar> < EDGE_THRESHOLD" by simp
    show ?thesis
      unfolding scan_market_def scan_market_with_skip [OF p y(2,3) lt]
      using y lt
      by (simp add: expected_signals_def expected_actions_def expected_skips_def edge_of_def)
  qed
qed

lemma example_market_expected:
  "expected_signals (example_market ''5e-1'' ''0.5'') = []"
  "expected_actions (example_market ''5e-1'' ''0.5'') = [SCAN, SKIP]"
  "map (\<lambda>t. (fst t, fst (snd t))) (expected_signals (example_market ''0.9'' ''0.1'')) =
     [(example_market ''0.9'' ''0.1'', SELL)]"
  "expected_actions (example_market ''0.9'' ''0.1'') = [SCAN, TRADE]"
  "expected_signals (example_market ''0.01'' ''0.99'') = []"
  "expected_actions (example_market ''0.01'' ''0.99'') = []"
  using engine_fair_bounds
  by (simp_all add: expected_signals_def expected_actions_def yes_price_def edge_of_def
      example_market_prices EDGE_THRESHOLD_def)

text \<open>
  C3. For every list of markets, \<^verbatim>\<open>scanForEdge\<close> returns, in the order of the markets:
  exactly one signal for each market whose yes-price lies strictly inside \<open>(0.02, 0.98)\<close>
  and whose absolute divergence is at least \<open>EDGE_THRESHOLD\<close>, BUY when the divergence is
  positive and SELL otherwise, and no signal for any other market; the log entries SCAN
  and TRADE for such a market, SCAN and SKIP for a market inside the band with a smaller
  divergence, the SKIP entry recording the edge, and no entry for a market with a
  yes-price at or below 0.02 or at or above 0.98.
\<close>

theorem scanForEdge_edge_rule:
  "\<exists>signals logs.
     scanForEdge (Inr prices) (Inr ms) = Inr (signals, logs) \<and>
     map (\<lambda>sg. (market sg, side sg, divergence sg)) signals =
       concat (map expected_signals ms) \<and>
     map action logs = concat (map expected_actions ms) \<and>
     map details (filter (\<lambda>l. action l = SKIP) logs) = concat (map expected_skips ms)"
proof -
  let ?signals = "concat (map (\<lambda>m. fst (scan_market prices m)) ms)"
  let ?logs = "concat (map (\<lambda>m. snd (scan_market prices m)) ms)"
  have r: "scanForEdge (Inr prices) (Inr ms) = Inr (?signals, ?logs)"
    by (simp add: scanForEdge_def scan_loop_concat)
  have a: "map (\<lambda>sg. (market sg, side sg, divergence sg)) ?signals =
      concat (map expected_signals ms)"
    using scan_market_expected [of prices] by (simp add: map_concat comp_def)
  have b: "map action ?logs = concat (map expected_actions ms)"
    using scan_market_expected [of prices] by (simp add: map_concat comp_def)
  have c: "map details (filter (\<lambda>l. action l = SKIP) ?logs) =
      concat (map expected_skips ms)"
    using scan_market_expected [of prices]
    by (simp add: map_concat filter_concat comp_def)
  show ?thesis using r a b c by blast
qed

theorem scanForEdge_edge_rule_witness:
  "map market (fst (projr (scanForEdge (Inr [])
      (Inr [example_market ''5e-1'' ''0.5'', example_market ''0.9'' ''0.1'',
            example_market ''0.01'' ''0.99''])))) =
     [example_market ''0.9'' ''0.1''] \<and>
   map side (fst (projr (scanForEdge (Inr [])
      (Inr [example_market ''5e-1'' ''0.5'', example_market ''0.9'' ''0.1'',
            example_market ''0.01'' ''0.99''])))) =
     [SELL] \<and>
   map action (snd (projr (scanForEdge (Inr [])
      (Inr [example_market ''5e-1'' ''0.5'', example_market ''0.9'' ''0.1'',
            example_market ''0.01'' ''0.99''])))) =
     [SCAN, SKIP, SCAN, TRADE]"
proof -
  let ?ms = "[example_market ''5e-1'' ''0.5'', example_market ''0.9'' ''0.1'',
      example_market ''0.01'' ''0.99'']"
  from scanForEdge_edge_rule [of "[]" ?ms] obtain signals logs
    where r: "scanForEdge (Inr []) (Inr ?ms) = Inr (signals, logs)"
      and s: "map (\<lambda>sg. (market sg, side sg, divergence sg)) signals =
        concat (map expected_signals ?ms)"
      and l: "map action logs = concat (map expected_actions ?ms)"
    by blast
  have "map (\<lambda>t. (fst t, fst (snd t)))
      (map (\<lambda>sg. (market sg, side sg, divergence sg)) signals) =
      [(example_market ''0.9'' ''0.1'', SELL)]"
    unfolding s by (simp add: example_market_expected)
  then have "map (\<lambda>sg. (market sg, side sg)) signals = [(example_market ''0.9'' ''0.1'', SELL)]"
    by (simp add: comp_def)
  then have "map fst (map (\<lambda>sg. (market sg, side sg)) signals) = [example_market ''0.9'' ''0.1'']"
    and "map snd (map (\<lambda>sg. (market sg, side sg)) signals) = [SELL]"
    by simp_all
  then have m: "map market signals = [example_market ''0.9'' ''0.1'']"
    and sd: "map side signals = [SELL]"
    by (simp_all add: comp_def)
  have "map action logs = [SCAN, SKIP, SCAN, TRADE]"
    unfolding l by (simp add: example_market_expected)
  then show ?thesis using r m sd by simp
qed






section \<open>Outcome prices\<close>


lemma scan_example_sell:
  "scan_loop [] [example_market ''0.9'' ''0.1''] =
     scan_market [] (example_market ''0.9'' ''0.1'') \<and>
   length (fst (scan_market [] (example_market ''0.9'' ''0.1''))) = 1 \<and>
   map action (snd (scan_market [] (example_market ''0.9'' ''0.1''))) = [SCAN, TRADE]"
proof -
  have p: "fst (parseOutcomePrices (outcomePrices (example_market ''0.9'' ''0.1''))) = Fin 0.9"
    by (simp add: example_market_prices)
  have edge: "\<bar>binaryFair SIGMA_c T_EXP R_FREE - 0.9 * 100\<bar> \<ge> EDGE_THRESHOLD"
    using engine_fair_bounds by (simp add: EDGE_THRESHOLD_def)
  have "length (fst (scan_market [] (example_market ''0.9'' ''0.1''))) = 1 \<and>
      map action (snd (scan_market [] (example_market ''0.9'' ''0.1''))) = [SCAN, TRADE]"
    unfolding scan_market_def scan_market_with_signal [OF p _ _ edge, simplified] by simp
  then show ?thesis by (simp split: prod.splits)
qed










section \<open>Position sizing\<close>

lemma size_loop_halt:
  "js_ge tot (Fin (balance * MAX_TOTAL_EXPOSURE_PCT)) \<Longrightarrow>
     size_loop balance tot (sg # rest) =
       ([], [\<lparr>action = HALT, log_asset = None,
              details = MaxExposure (jmul (jdiv tot (Fin balance)) (Fin 100))\<rparr>])"
  by simp

lemma size_loop_skip:
  "\<not> js_ge tot (Fin (balance * MAX_TOTAL_EXPOSURE_PCT)) \<Longrightarrow>
   kellyFraction_of sg \<le> 0 \<or> shares_of balance sg \<le> 0 \<Longrightarrow>
     size_loop balance tot (sg # rest) = size_loop balance tot rest"
  by auto

lemma size_loop_push:
  "\<not> js_ge tot (Fin (balance * MAX_TOTAL_EXPOSURE_PCT)) \<Longrightarrow>
   \<not> (kellyFraction_of sg \<le> 0 \<or> shares_of balance sg \<le> 0) \<Longrightarrow>
     size_loop balance tot (sg # rest) =
       (\<lparr>signal = sg, kellyFraction = kellyFraction_of sg,
          sizeUSD = sizeUSD_of balance sg, shares = shares_of balance sg\<rparr> #
          fst (size_loop balance (jadd tot (Fin (sizeUSD_of balance sg))) rest),
        snd (size_loop balance (jadd tot (Fin (sizeUSD_of balance sg))) rest))"
  by (simp split: prod.splits)

lemma size_loop_positions:
  "pos \<in> set (fst (size_loop balance tot sigs)) \<Longrightarrow>
     signal pos \<in> set sigs \<and> kellyFraction pos = kellyFraction_of (signal pos) \<and>
     sizeUSD pos = sizeUSD_of balance (signal pos) \<and>
     shares pos = shares_of balance (signal pos) \<and> 0 < kellyFraction pos \<and> 0 < shares pos"
proof (induction sigs arbitrary: tot)
  case Nil
  then show ?case by simp
next
  case (Cons sg rest)
  show ?case
  proof (cases "js_ge tot (Fin (balance * MAX_TOTAL_EXPOSURE_PCT))")
    case True
    show ?thesis using Cons.prems unfolding size_loop_halt [OF True] by simp
  next
    case below: False
    show ?thesis
    proof (cases "kellyFraction_of sg \<le> 0 \<or> shares_of balance sg \<le> 0")
      case True
      have "pos \<in> set (fst (size_loop balance tot rest))"
        using Cons.prems unfolding size_loop_skip [OF below True] .
      from Cons.IH [OF this] show ?thesis by simp
    next
      case False
      have
        "pos = \<lparr>signal = sg, kellyFraction = kellyFraction_of sg,
                 sizeUSD = sizeUSD_of balance sg, shares = shares_of balance sg\<rparr> \<or>
         pos \<in> set (fst (size_loop balance (jadd tot (Fin (sizeUSD_of balance sg))) rest))"
        using Cons.prems unfolding size_loop_push [OF below False] by simp
      then show ?thesis
      proof
        assume "pos = \<lparr>signal = sg, kellyFraction = kellyFraction_of sg,
                 sizeUSD = sizeUSD_of balance sg, shares = shares_of balance sg\<rparr>"
        then show ?thesis using False by (simp add: not_le)
      next
        assume "pos \<in> set (fst (size_loop balance (jadd tot (Fin (sizeUSD_of balance sg))) rest))"
        from Cons.IH [OF this] show ?thesis by simp
      qed
    qed
  qed
qed

lemma sizeUSD_of_le: "sizeUSD_of balance sg \<le> balance * MAX_POSITION_PCT"
  by (simp add: sizeUSD_of_def)

text \<open>
  The per-position limit, for signals whose market price lies strictly between 0 and 100,
  where the sizing divides by no zero.
\<close>

lemma size_loop_position_limit:
  assumes "list_all (\<lambda>sg. 0 < mktPrice sg \<and> mktPrice sg < 100) sigs"
    and "pos \<in> set (fst (size_loop balance tot sigs))"
  shows "sizeUSD pos \<le> balance * MAX_POSITION_PCT"
  using size_loop_positions [OF assms(2)] sizeUSD_of_le [of balance "signal pos"]
  by simp

lemma size_loop_log_actions:
  "entry \<in> set (snd (size_loop balance tot sigs)) \<Longrightarrow> action entry = HALT"
proof (induction sigs arbitrary: tot)
  case Nil
  then show ?case by simp
next
  case (Cons sg rest)
  show ?case
  proof (cases "js_ge tot (Fin (balance * MAX_TOTAL_EXPOSURE_PCT))")
    case True
    show ?thesis using Cons.prems unfolding size_loop_halt [OF True] by simp
  next
    case below: False
    show ?thesis
    proof (cases "kellyFraction_of sg \<le> 0 \<or> shares_of balance sg \<le> 0")
      case True
      show ?thesis
        using Cons.prems unfolding size_loop_skip [OF below True] by (rule Cons.IH)
    next
      case False
      show ?thesis
        using Cons.prems unfolding size_loop_push [OF below False]
        by (simp add: Cons.IH)
    qed
  qed
qed

lemma scan_low_priced:
  "map (\<lambda>sg. (modelFair sg, mktPrice sg, side sg))
     (fst (scan_loop [] [example_market ''0.1'' ''0.9''])) =
     [(binaryFair SIGMA_c T_EXP R_FREE, 10, BUY)]"
proof -
  have p: "fst (parseOutcomePrices (outcomePrices (example_market ''0.1'' ''0.9''))) = Fin 0.1"
    by code_simp
  have edge: "\<bar>binaryFair SIGMA_c T_EXP R_FREE - 0.1 * 100\<bar> \<ge> EDGE_THRESHOLD"
    using engine_fair_bounds by (simp add: EDGE_THRESHOLD_def)
  have pos: "binaryFair SIGMA_c T_EXP R_FREE - 0.1 * 100 > 0"
    using engine_fair_bounds by simp
  have "map (\<lambda>sg. (modelFair sg, mktPrice sg, side sg))
     (fst (scan_market [] (example_market ''0.1'' ''0.9''))) =
     [(binaryFair SIGMA_c T_EXP R_FREE, 10, BUY)]"
    unfolding scan_market_def scan_market_with_signal [OF p _ _ edge, simplified]
    using pos by simp
  then show ?thesis by (simp add: scan_loop_concat)
qed

lemma low_priced_sizing:
  assumes "modelFair sg = binaryFair SIGMA_c T_EXP R_FREE" and "mktPrice sg = 10"
    and "side sg = BUY"
  shows "kellyFraction_of sg = 0.05 \<and> sizeUSD_of 100 sg = 5 \<and> shares_of 100 sg = 50"
proof -
  define p where "p = binaryFair SIGMA_c T_EXP R_FREE / 100"
  have p: "0.49 < p" using engine_fair_bounds unfolding p_def by simp
  have raw: "kellyRaw_of sg = (p * 9 - (1 - p)) / 9"
    using assms by (simp add: kellyRaw_of_def p_def)
  have "0.05 \<le> (p * 9 - (1 - p)) / 9 * 0.25" using p by simp
  then have kf: "kellyFraction_of sg = 0.05"
    unfolding kellyFraction_of_def raw KELLY_FRACTION_def MAX_POSITION_PCT_def by simp
  have sz: "sizeUSD_of 100 sg = 5"
    by (simp add: sizeUSD_of_def kf MAX_POSITION_PCT_def)
  have "shares_of 100 sg = 50"
    using assms by (simp add: shares_of_def sz price_of_def)
  with kf sz show ?thesis by simp
qed

lemma low_priced_pass:
  "map sizeUSD (fst (sizePositions (Inr (Some 100)) (Inr [example_order])
       (fst (scan_loop [] [example_market ''0.1'' ''0.9''])))) = [5] \<and>
   snd (sizePositions (Inr (Some 100)) (Inr [example_order])
       (fst (scan_loop [] [example_market ''0.1'' ''0.9'']))) = []"
proof -
  from scan_low_priced obtain sg
    where sc: "fst (scan_loop [] [example_market ''0.1'' ''0.9'']) = [sg]"
      and sg: "modelFair sg = binaryFair SIGMA_c T_EXP R_FREE" "mktPrice sg = 10"
        "side sg = BUY"
    by (cases "fst (scan_loop [] [example_market ''0.1'' ''0.9''])") auto
  have seed: "seedExposure (Inr [example_order]) = Fin 39"
    by (simp add: seedExposure_def example_order_def)
  note k = low_priced_sizing [OF sg]
  have below: "\<not> js_ge (Fin 39) (Fin (100 * MAX_TOTAL_EXPOSURE_PCT))"
    by (simp add: js_ge_def MAX_TOTAL_EXPOSURE_PCT_def)
  have push: "\<not> (kellyFraction_of sg \<le> 0 \<or> shares_of 100 sg \<le> 0)" using k by simp
  show ?thesis
    unfolding sc sizePositions_def seed
    by (simp add: or_zero_def size_loop_push [OF below push] k del: size_loop.simps(2))
qed

text \<open>
  C1. The aggregate exposure of one sizing pass can exceed
  \<open>balance * MAX_TOTAL_EXPOSURE_PCT\<close>: the loop tests the cap before it sizes a signal and
  adds the position without testing the sum. With a balance of 100 the cap is 40. One
  open order of 78 shares at 0.5 seeds an exposure of 39; the signal that the scan emits
  for a market priced at 0.1 is sized at 5, no HALT is logged, and the pass ends at 44.
  The same holds for a hand-made signal of model value 50 at market price 10. With no
  open orders, fourteen signals of model value 56 at market price 50 are sized at 3 each
  and the pass ends at 42. And an open order whose price does not parse seeds NaN, against
  which the cap test is always false: twenty such signals are all sized, 60 in total.
\<close>

theorem sizePositions_exceeds_cap:
  "seedExposure (Inr [example_order]) = Fin 39 \<and>
   map sizeUSD (fst (sizePositions (Inr (Some 100)) (Inr [example_order])
       (fst (scan_loop [] [example_market ''0.1'' ''0.9''])))) = [5] \<and>
   snd (sizePositions (Inr (Some 100)) (Inr [example_order])
       (fst (scan_loop [] [example_market ''0.1'' ''0.9'']))) = [] \<and>
   map sizeUSD (fst (sizePositions (Inr (Some 100)) (Inr [example_order])
       [example_signal 50 10 BUY])) = [5] \<and>
   snd (sizePositions (Inr (Some 100)) (Inr [example_order]) [example_signal 50 10 BUY]) = [] \<and>
   100 * MAX_TOTAL_EXPOSURE_PCT < 39 + 5 \<and>
   seedExposure (Inr []) = Fin 0 \<and>
   sum_list (map sizeUSD (fst (sizePositions (Inr (Some 100)) (Inr [])
       (replicate 14 (example_signal 56 50 BUY))))) = 42 \<and>
   snd (sizePositions (Inr (Some 100)) (Inr []) (replicate 14 (example_signal 56 50 BUY))) = [] \<and>
   100 * MAX_TOTAL_EXPOSURE_PCT < 0 + 42 \<and>
   seedExposure (Inr [unparsed_order]) = NaN \<and>
   sum_list (map sizeUSD (fst (sizePositions (Inr (Some 100)) (Inr [unparsed_order])
       (replicate 20 (example_signal 56 50 BUY))))) = 60 \<and>
   snd (sizePositions (Inr (Some 100)) (Inr [unparsed_order])
       (replicate 20 (example_signal 56 50 BUY))) = []"
proof -
  have a: "seedExposure (Inr [example_order]) = Fin 39" "seedExposure (Inr []) = Fin 0"
    "seedExposure (Inr [unparsed_order]) = NaN"
    by code_simp+
  have b: "map sizeUSD (fst (sizePositions (Inr (Some 100)) (Inr [example_order])
       [example_signal 50 10 BUY])) = [5]"
    "snd (sizePositions (Inr (Some 100)) (Inr [example_order]) [example_signal 50 10 BUY]) = []"
    by code_simp+
  have c: "sum_list (map sizeUSD (fst (sizePositions (Inr (Some 100)) (Inr [])
       (replicate 14 (example_signal 56 50 BUY))))) = 42"
    "snd (sizePositions (Inr (Some 100)) (Inr []) (replicate 14 (example_signal 56 50 BUY))) = []"
    by code_simp+
  have d: "100 * MAX_TOTAL_EXPOSURE_PCT < 39 + 5" "100 * MAX_TOTAL_EXPOSURE_PCT < 0 + 42"
    by (simp_all add: MAX_TOTAL_EXPOSURE_PCT_def)
  have e: "sum_list (map sizeUSD (fst (sizePositions (Inr (Some 100)) (Inr [unparsed_order])
       (replicate 20 (example_signal 56 50 BUY))))) = 60"
    "snd (sizePositions (Inr (Some 100)) (Inr [unparsed_order])
       (replicate 20 (example_signal 56 50 BUY))) = []"
    by code_simp+
  show ?thesis using a b c d e low_priced_pass by simp
qed



text \<open>
  C8, as stated: when the open-order lookup fails, a log entry records the degraded path.
  It fails: with a balance of 1000, a failed lookup and one signal, a position is sized
  and the log of the pass is empty.
\<close>

theorem sizePositions_lookup_failure_counterexample:
  "snd (sizePositions (Inr (Some 1000)) (Inl (TransportError ''CLOB GET /orders failed (503)''))
       [example_signal 55 50 BUY]) = [] \<and>
   length (fst (sizePositions (Inr (Some 1000))
       (Inl (TransportError ''CLOB GET /orders failed (503)''))
       [example_signal 55 50 BUY])) = 1"
  by code_simp

text \<open>
  C8, amended. When the open-order lookup fails during a sizing pass, the exposure is
  seeded as zero and sizing continues exactly as with no open orders: the failure adds no
  log entry, and with a balance lookup that succeeded every entry of the pass is a HALT.
\<close>

theorem sizePositions_lookup_failure:
  "seedExposure (Inl e) = Fin 0 \<and>
   sizePositions bres (Inl e) signals = sizePositions bres (Inr []) signals \<and>
   (\<forall>entry \<in> set (snd (sizePositions (Inr balanceData) (Inl e) signals)).
      action entry = HALT)"
proof -
  have seed: "seedExposure (Inl e) = Fin 0" "seedExposure (Inr []) = Fin 0"
    by (simp_all add: seedExposure_def)
  have same: "sizePositions bres (Inl e) signals =
      sizePositions bres (Inr []) signals"
    unfolding sizePositions_def seed ..
  have "action entry = HALT"
    if "entry \<in> set (snd (sizePositions (Inr balanceData) (Inl e) signals))" for entry
  proof (cases "or_zero balanceData \<le> 0")
    case True
    with that show ?thesis by (simp add: sizePositions_def)
  next
    case False
    with that have "entry \<in> set (snd (size_loop (or_zero balanceData) (Fin 0) signals))"
      by (simp add: sizePositions_def seed)
    then show ?thesis by (rule size_loop_log_actions)
  qed
  then show ?thesis using seed same by blast
qed

theorem sizePositions_lookup_failure_witness:
  "seedExposure (Inl (TransportError ''CLOB GET /orders failed (503)'')) = Fin 0 \<and>
   list_all (\<lambda>entry. action entry = HALT)
     (snd (sizePositions (Inr (Some 100))
        (Inl (TransportError ''CLOB GET /orders failed (503)''))
        (replicate 9 (example_signal 90 50 BUY)))) \<and>
   length (snd (sizePositions (Inr (Some 100))
        (Inl (TransportError ''CLOB GET /orders failed (503)''))
        (replicate 9 (example_signal 90 50 BUY)))) = 1"
proof -
  have "length (snd (sizePositions (Inr (Some 100))
        (Inl (TransportError ''CLOB GET /orders failed (503)''))
        (replicate 9 (example_signal 90 50 BUY)))) = 1"
    by code_simp
  then show ?thesis
    using sizePositions_lookup_failure
      [of "TransportError ''CLOB GET /orders failed (503)''" "Inr (Some 100)"
        "replicate 9 (example_signal 90 50 BUY)" "Some 100"]
    by (simp add: list_all_iff)
qed
section \<open>Order execution\<close>

lemma exec_loop_Cons_ok:
  "place i (order_of pos) = Inr response \<Longrightarrow>
     exec_loop place i (pos # rest) =
       (\<lparr>position = pos, result_orderID = orderID response,
          result_status = status response\<rparr> # fst (exec_loop place (Suc i) rest),
        \<lparr>action = TRADE, log_asset = Some (asset (signal pos)),
          details = OrderPlaced (side (signal pos)) (jmul (exec_price pos) (Fin 100))
                      (real_of_int (Math_round (sizeUSD pos)))
                      \<bar>divergence (signal pos)\<bar> (kellyFraction pos * 100)
                      (orderID response)\<rparr> # snd (exec_loop place (Suc i) rest))"
  by (simp split: prod.splits)

lemma exec_loop_Cons_fail:
  "place i (order_of pos) = Inl err \<Longrightarrow>
     exec_loop place i (pos # rest) =
       (fst (exec_loop place (Suc i) rest),
        \<lparr>action = ERROR, log_asset = Some (asset (signal pos)),
          details = OrderFailed (err_message err)\<rparr> # snd (exec_loop place (Suc i) rest))"
  by (simp split: prod.splits)

lemma exec_loop_all_ok:
  "\<forall>j < length ps. \<not> isl (place (i + j) (order_of (ps ! j))) \<Longrightarrow>
     map position (fst (exec_loop place i ps)) = ps \<and>
     length (snd (exec_loop place i ps)) = length ps \<and>
     filter (\<lambda>l. action l = ERROR) (snd (exec_loop place i ps)) = [] \<and>
     length (filter (\<lambda>l. action l = TRADE) (snd (exec_loop place i ps))) = length ps"
proof (induction ps arbitrary: i)
  case Nil
  then show ?case by simp
next
  case (Cons pos rest)
  from Cons.prems [rule_format, of 0] have "\<not> isl (place i (order_of pos))"
    by simp
  then obtain response where ok: "place i (order_of pos) = Inr response"
    by (cases "place i (order_of pos)") auto
  have "\<forall>j < length rest. \<not> isl (place (Suc i + j) (order_of (rest ! j)))"
  proof (intro allI impI)
    fix j assume "j < length rest"
    then have "Suc j < length (pos # rest)" by simp
    from Cons.prems [rule_format, OF this]
    have "\<not> isl (place (i + Suc j) (order_of ((pos # rest) ! Suc j)))" .
    then show "\<not> isl (place (Suc i + j) (order_of (rest ! j)))" by simp
  qed
  from Cons.IH [OF this] show ?case
    unfolding exec_loop_Cons_ok [of place i pos response rest, OF ok] by simp
qed

lemma exec_loop_one_failure:
  "k < length ps \<Longrightarrow>
   \<forall>j < length ps. isl (place (i + j) (order_of (ps ! j))) \<longleftrightarrow> j = k \<Longrightarrow>
     map position (fst (exec_loop place i ps)) = take k ps @ drop (Suc k) ps \<and>
     length (snd (exec_loop place i ps)) = length ps \<and>
     filter (\<lambda>l. action l = ERROR) (snd (exec_loop place i ps)) =
       [\<lparr>action = ERROR, log_asset = Some (asset (signal (ps ! k))),
         details = OrderFailed
           (err_message (projl (place (i + k) (order_of (ps ! k)))))\<rparr>] \<and>
     length (filter (\<lambda>l. action l = TRADE) (snd (exec_loop place i ps))) =
       length ps - 1"
proof (induction ps arbitrary: i k)
  case Nil
  then show ?case by simp
next
  case (Cons pos rest)
  show ?case
  proof (cases k)
    case 0
    from Cons.prems(2) [rule_format, of 0] 0 have "isl (place i (order_of pos))"
      by simp
    then obtain err where bad: "place i (order_of pos) = Inl err"
      by (cases "place i (order_of pos)") auto
    have "\<forall>j < length rest. \<not> isl (place (Suc i + j) (order_of (rest ! j)))"
    proof (intro allI impI)
      fix j assume "j < length rest"
      then have "Suc j < length (pos # rest)" by simp
      from Cons.prems(2) [rule_format, OF this] 0
      have "\<not> isl (place (i + Suc j) (order_of ((pos # rest) ! Suc j)))"
        by simp
      then show "\<not> isl (place (Suc i + j) (order_of (rest ! j)))" by simp
    qed
    from exec_loop_all_ok [OF this] show ?thesis
      unfolding exec_loop_Cons_fail [of place i pos err rest, OF bad] using 0 bad by simp
  next
    case (Suc k')
    from Cons.prems(2) [rule_format, of 0] Suc have "\<not> isl (place i (order_of pos))"
      by simp
    then obtain response where ok: "place i (order_of pos) = Inr response"
      by (cases "place i (order_of pos)") auto
    have k': "k' < length rest" using Cons.prems(1) Suc by simp
    have "\<forall>j < length rest. isl (place (Suc i + j) (order_of (rest ! j))) \<longleftrightarrow> j = k'"
    proof (intro allI impI)
      fix j assume "j < length rest"
      then have "Suc j < length (pos # rest)" by simp
      from Cons.prems(2) [rule_format, OF this] Suc
      have "isl (place (i + Suc j) (order_of ((pos # rest) ! Suc j))) \<longleftrightarrow> Suc j = Suc k'"
        by simp
      then show "isl (place (Suc i + j) (order_of (rest ! j))) \<longleftrightarrow> j = k'" by simp
    qed
    from Cons.IH [OF k' this] show ?thesis
      unfolding exec_loop_Cons_ok [of place i pos response rest, OF ok] using Suc k' by simp
  qed
qed

text \<open>
  C6. When exactly one placement, the \<open>k\<close>-th, fails among \<open>N\<close> positions,
  \<^verbatim>\<open>executeTrades\<close> returns \<open>N - 1\<close> results, those of the other positions in their
  order; the log has one entry per position, exactly one of them an ERROR entry, which
  names the asset of the failed position, and \<open>N - 1\<close> TRADE entries.
\<close>

theorem executeTrades_isolates_failure:
  assumes "k < length positions"
    and "\<forall>j < length positions. isl (place j (order_of (positions ! j))) \<longleftrightarrow> j = k"
  shows
    "length (fst (executeTrades place positions)) = length positions - 1 \<and>
     map position (fst (executeTrades place positions)) =
       take k positions @ drop (Suc k) positions \<and>
     length (snd (executeTrades place positions)) = length positions \<and>
     filter (\<lambda>l. action l = ERROR) (snd (executeTrades place positions)) =
       [\<lparr>action = ERROR, log_asset = Some (asset (signal (positions ! k))),
         details = OrderFailed
           (err_message (projl (place k (order_of (positions ! k)))))\<rparr>] \<and>
     length (filter (\<lambda>l. action l = TRADE) (snd (executeTrades place positions))) =
       length positions - 1"
proof -
  have "\<forall>j < length positions.
      isl (place (0 + j) (order_of (positions ! j))) \<longleftrightarrow> j = k"
    using assms(2) by simp
  from exec_loop_one_failure [OF assms(1) this]
  have main: "map position (fst (exec_loop place 0 positions)) =
        take k positions @ drop (Suc k) positions \<and>
      length (snd (exec_loop place 0 positions)) = length positions \<and>
      filter (\<lambda>l. action l = ERROR) (snd (exec_loop place 0 positions)) =
        [\<lparr>action = ERROR, log_asset = Some (asset (signal (positions ! k))),
          details = OrderFailed
            (err_message (projl (place k (order_of (positions ! k)))))\<rparr>] \<and>
      length (filter (\<lambda>l. action l = TRADE) (snd (exec_loop place 0 positions))) =
        length positions - 1"
    by simp
  then have "length (map position (fst (exec_loop place 0 positions))) =
      length (take k positions @ drop (Suc k) positions)"
    by simp
  then have "length (fst (exec_loop place 0 positions)) = length positions - 1"
    using assms(1) by simp
  then show ?thesis using main unfolding executeTrades_def by simp
qed

theorem executeTrades_isolates_failure_witness:
  "(1::nat) < length [example_position 56, example_position 57, example_position 58] \<and>
   list_all
     (\<lambda>j. isl (example_venue 1 j
             (order_of ([example_position 56, example_position 57, example_position 58] ! j)))
           = (j = 1))
     [0, 1, 2] \<and>
   map position (fst (executeTrades (example_venue 1)
       [example_position 56, example_position 57, example_position 58])) =
     [example_position 56, example_position 58] \<and>
   filter (\<lambda>l. action l = ERROR) (snd (executeTrades (example_venue 1)
       [example_position 56, example_position 57, example_position 58])) =
     [\<lparr>action = ERROR, log_asset = Some ''BTC'',
       details = OrderFailed ''CLOB POST /order failed (503)''\<rparr>]"
proof -
  let ?ps = "[example_position 56, example_position 57, example_position 58]"
  have h1: "1 < length ?ps" by simp
  have h2: "\<forall>j < length ?ps.
      isl (example_venue 1 j (order_of (?ps ! j))) \<longleftrightarrow> j = 1"
    by (simp add: example_venue_def)
  from executeTrades_isolates_failure [of 1 ?ps "example_venue 1", OF h1 h2] h2 show ?thesis
    by (simp add: example_venue_def example_position_def example_signal_def)
qed

section \<open>Quoting\<close>

lemma delta_x_pos:
  assumes "0 < gamma" "0 < k" "0 \<le> T"
  shows "0 < delta_x_of gamma sigma_b T k"
proof -
  have sq: "0 \<le> sigma_b * sigma_b" by simp
  have "0 \<le> gamma * (sigma_b * sigma_b)"
    using assms(1) sq by (simp add: mult_nonneg_nonneg less_imp_le)
  then have "0 \<le> gamma * (sigma_b * sigma_b) * T"
    using assms(3) by (rule mult_nonneg_nonneg)
  then have a: "0 \<le> gamma * sigma_b * sigma_b * T / 2"
    by (simp add: mult.assoc)
  have "1 < 1 + gamma / k" using assms by simp
  then have "0 < ln (1 + gamma / k)" by simp
  then have b: "0 < (1 / gamma) * ln (1 + gamma / k)" using assms by simp
  show ?thesis unfolding delta_x_of_def using a b by linarith
qed

lemma exp_neg_x_t:
  assumes "0 < p" "p < 1"
  shows "exp (- x_t_of p) = (1 - p) / p"
proof -
  have "0 < p / (1 - p)" using assms by simp
  then have "exp (x_t_of p) = p / (1 - p)" unfolding x_t_of_def by simp
  then show ?thesis using assms by (simp add: exp_minus field_simps)
qed

lemma p_bid_bounds:
  assumes "0 < p" "p < 1" "0 < d"
  shows "0 < p_bid_of (x_t_of p) d \<and> p_bid_of (x_t_of p) d < p"
proof -
  define e where "e = exp (- (x_t_of p - d))"
  have "e = exp (- x_t_of p) * exp d"
    unfolding e_def by (simp add: exp_add [symmetric])
  then have e: "e = (1 - p) / p * exp d"
    using exp_neg_x_t [OF assms(1,2)] by simp
  have d1: "1 < exp d" using assms by simp
  have c0: "0 < (1 - p) / p" using assms by simp
  have "(1 - p) / p * 1 < (1 - p) / p * exp d"
    by (rule mult_strict_left_mono [OF d1 c0])
  then have "(1 - p) / p < e" unfolding e by (simp only: mult_1_right)
  then have "1 - p < e * p" using assms(1) by (simp add: pos_divide_less_eq)
  then have "1 < p * (1 + e)" by (simp add: algebra_simps)
  moreover have epos: "0 < 1 + e" unfolding e_def by (simp add: add_pos_pos)
  ultimately have "1 / (1 + e) < p" by (simp add: pos_divide_less_eq mult.commute)
  moreover have "0 < 1 / (1 + e)" using epos by simp
  ultimately show ?thesis unfolding p_bid_of_def e_def by simp
qed

lemma p_ask_bounds:
  assumes "0 < p" "p < 1" "0 < d"
  shows "p < p_ask_of (x_t_of p) d \<and> p_ask_of (x_t_of p) d < 1"
proof -
  define e where "e = exp (- (x_t_of p + d))"
  have "e = exp (- x_t_of p) * exp (- d)"
    unfolding e_def by (simp add: exp_add [symmetric])
  then have e: "e = (1 - p) / p * exp (- d)"
    using exp_neg_x_t [OF assms(1,2)] by simp
  have epos: "0 < e" unfolding e_def by simp
  have d1: "exp (- d) < 1" using assms by simp
  have c0: "0 < (1 - p) / p" using assms by simp
  have "(1 - p) / p * exp (- d) < (1 - p) / p * 1"
    by (rule mult_strict_left_mono [OF d1 c0])
  then have "e < (1 - p) / p" unfolding e by (simp only: mult_1_right)
  then have "e * p < 1 - p" using assms(1) by (simp add: pos_less_divide_eq)
  then have "p * (1 + e) < 1" by (simp add: algebra_simps)
  moreover have e1: "0 < 1 + e" using epos by simp
  ultimately have "p < 1 / (1 + e)" by (simp add: pos_less_divide_eq mult.commute)
  moreover have "1 / (1 + e) < 1" using epos by simp
  ultimately show ?thesis unfolding p_ask_of_def e_def by simp
qed

text \<open>
  C9. For a fair probability \<open>p\<close> strictly between 0 and 1, \<open>\<gamma> > 0\<close>, \<open>k > 0\<close>, any
  \<open>\<sigma>\<^sub>b\<close> and \<open>T \<ge> 0\<close>, the half-spread is strictly positive and the quotes satisfy
  \<open>0 < p_bid < p < p_ask < 1\<close>, over the reals.
\<close>

theorem quotes_bracket_fair:
  assumes "0 < p" and "p < 1" and "0 < gamma" and "0 < k" and "0 \<le> T"
  shows "0 < delta_x_of gamma sigma_b T k \<and>
    0 < p_bid_of (x_t_of p) (delta_x_of gamma sigma_b T k) \<and>
    p_bid_of (x_t_of p) (delta_x_of gamma sigma_b T k) < p \<and>
    p < p_ask_of (x_t_of p) (delta_x_of gamma sigma_b T k) \<and>
    p_ask_of (x_t_of p) (delta_x_of gamma sigma_b T k) < 1"
proof -
  have d: "0 < delta_x_of gamma sigma_b T k" by (rule delta_x_pos [OF assms(3,4,5)])
  show ?thesis
    using d p_bid_bounds [OF assms(1,2) d] p_ask_bounds [OF assms(1,2) d] by simp
qed

theorem quotes_bracket_fair_witness:
  "(0::real) < 1/2 \<and> (1/2::real) < 1 \<and> 0 < GAMMA \<and> 0 < K_DECAY \<and> 0 \<le> T_EXP \<and>
   0 < delta_x_of GAMMA SIGMA_B T_EXP K_DECAY \<and>
   0 < p_bid_of (x_t_of (1/2)) (delta_x_of GAMMA SIGMA_B T_EXP K_DECAY) \<and>
   p_bid_of (x_t_of (1/2)) (delta_x_of GAMMA SIGMA_B T_EXP K_DECAY) < 1/2 \<and>
   1/2 < p_ask_of (x_t_of (1/2)) (delta_x_of GAMMA SIGMA_B T_EXP K_DECAY) \<and>
   p_ask_of (x_t_of (1/2)) (delta_x_of GAMMA SIGMA_B T_EXP K_DECAY) < 1"
proof -
  have h: "(0::real) < 1/2" "(1/2::real) < 1" "0 < GAMMA" "0 < K_DECAY" "0 \<le> T_EXP"
    by (simp_all add: GAMMA_def K_DECAY_def T_EXP_def)
  show ?thesis
    using h quotes_bracket_fair [OF h, of SIGMA_B] by simp
qed

section \<open>The trading cycle\<close>

lemma exec_loop_log_length: "length (snd (exec_loop place i ps)) = length ps"
proof (induction ps arbitrary: i)
  case Nil
  then show ?case by simp
next
  case (Cons pos rest)
  show ?case
  proof (cases "place i (order_of pos)")
    case (Inl err)
    show ?thesis
      unfolding exec_loop_Cons_fail [of place i pos err rest, OF Inl] by (simp add: Cons.IH)
  next
    case (Inr response)
    show ?thesis
      unfolding exec_loop_Cons_ok [of place i pos response rest, OF Inr] by (simp add: Cons.IH)
  qed
qed

text \<open>
  C2, as stated: for every outcome of the external calls the cycle returns a log. It
  fails: the two fetches of the scan are awaited outside any \<^verbatim>\<open>try\<close>, and a failed
  price fetch with an empty cache leaves the cycle as a rejected promise, with no log.
\<close>

theorem runTradingCycle_counterexample:
  "runTradingCycle (example_world (fetch_or_stale None (Inl (TransportError ''CoinGecko 503''))))
     = Inl (TransportError ''CoinGecko 503'')"
  by (simp add: runTradingCycle_def scanForEdge_def example_world_def fetch_or_stale_def)

text \<open>
  C2, amended. When the market fetch and the spot-price fetch succeed, the cycle returns
  a non-empty ordered log for every outcome of the balance fetch, the open-order fetches
  and the order placements. A failed balance fetch is recovered as an empty sizing result
  with an ERROR entry, and a failed open-order fetch of the monitor as a single ERROR
  entry. A failed price or market fetch is not recovered: the cycle is rejected with that
  error and returns no log.
\<close>

theorem runTradingCycle_outcomes:
  "(prices_res w = Inr ps \<and> markets_res w = Inr ms \<longrightarrow>
      (\<exists>logs. runTradingCycle w = Inr logs \<and> logs \<noteq> [])) \<and>
   (prices_res w = Inl e \<longrightarrow> runTradingCycle w = Inl e) \<and>
   (prices_res w = Inr ps \<and> markets_res w = Inl e \<longrightarrow> runTradingCycle w = Inl e) \<and>
   (prices_res w = Inr ps \<and> markets_res w = Inr ms \<and> fst (scan_loop ps ms) \<noteq> [] \<and>
    balance_res w = Inl e \<longrightarrow>
      runTradingCycle w =
        Inr (snd (scan_loop ps ms) @
             [\<lparr>action = ERROR, log_asset = None,
                details = Message ''Failed to fetch CLOB balance''\<rparr>,
              \<lparr>action = SKIP, log_asset = None,
                details = Message ''No positions sized (risk limits or zero balance)''\<rparr>])) \<and>
   monitorPositions (Inl e) =
     [\<lparr>action = ERROR, log_asset = None, details = MonitorFailed (err_message e)\<rparr>]"
proof -
  have a: "\<exists>logs. runTradingCycle w = Inr logs \<and> logs \<noteq> []"
    if ok: "prices_res w = Inr ps" "markets_res w = Inr ms"
  proof -
    obtain signals scanLogs where sc: "scan_loop ps ms = (signals, scanLogs)"
      by (cases "scan_loop ps ms")
    obtain positions sizeLogs
      where sz: "sizePositions (balance_res w) (sizing_orders_res w) signals =
        (positions, sizeLogs)"
      by (cases "sizePositions (balance_res w) (sizing_orders_res w) signals")
    obtain results execLogs
      where ex: "executeTrades (placeOrder w) positions = (results, execLogs)"
      by (cases "executeTrades (placeOrder w) positions")
    have "length execLogs = length positions"
      using ex exec_loop_log_length [of "placeOrder w" 0 positions]
      by (simp add: executeTrades_def)
    then have "positions \<noteq> [] \<Longrightarrow> execLogs \<noteq> []" by auto
    then show ?thesis
      unfolding runTradingCycle_def scanForEdge_def using ok sc sz ex by simp
  qed
  have b: "runTradingCycle w = Inl e" if "prices_res w = Inl e"
    using that by (simp add: runTradingCycle_def scanForEdge_def)
  have c: "runTradingCycle w = Inl e" if "prices_res w = Inr ps" "markets_res w = Inl e"
    using that by (simp add: runTradingCycle_def scanForEdge_def)
  have d: "runTradingCycle w =
        Inr (snd (scan_loop ps ms) @
             [\<lparr>action = ERROR, log_asset = None,
                details = Message ''Failed to fetch CLOB balance''\<rparr>,
              \<lparr>action = SKIP, log_asset = None,
                details = Message ''No positions sized (risk limits or zero balance)''\<rparr>])"
    if ok: "prices_res w = Inr ps" "markets_res w = Inr ms" "fst (scan_loop ps ms) \<noteq> []"
      "balance_res w = Inl e"
  proof -
    obtain signals scanLogs where sc: "scan_loop ps ms = (signals, scanLogs)"
      by (cases "scan_loop ps ms")
    then have "signals \<noteq> []" using ok(3) by simp
    then show ?thesis
      using ok sc by (simp add: runTradingCycle_def scanForEdge_def sizePositions_def)
  qed
  have m: "monitorPositions (Inl e) =
     [\<lparr>action = ERROR, log_asset = None, details = MonitorFailed (err_message e)\<rparr>]"
    by (simp add: monitorPositions_def)
  show ?thesis using a b c d m by blast
qed

theorem runTradingCycle_outcomes_witness:
  "prices_res (example_world (Inr [])) = Inr [] \<and>
   markets_res (example_world (Inr [])) = Inr [example_market ''0.9'' ''0.1''] \<and>
   balance_res (example_world (Inr [])) =
     Inl (TransportError ''CLOB GET /balance failed (503)'') \<and>
   map action (projr (runTradingCycle (example_world (Inr [])))) =
     [SCAN, TRADE, ERROR, SKIP] \<and>
   runTradingCycle (example_world (Inl (TransportError ''CoinGecko 503''))) =
     Inl (TransportError ''CoinGecko 503'')"
proof -
  have h1: "prices_res (example_world (Inr [])) = Inr []"
    and h2: "markets_res (example_world (Inr [])) = Inr [example_market ''0.9'' ''0.1'']"
    and h3: "balance_res (example_world (Inr [])) =
      Inl (TransportError ''CLOB GET /balance failed (503)'')"
    and h4: "prices_res (example_world (Inl (TransportError ''CoinGecko 503''))) =
      Inl (TransportError ''CoinGecko 503'')"
    by (simp_all add: example_world_def)
  have h5: "fst (scan_loop [] [example_market ''0.9'' ''0.1'']) \<noteq> []"
    using scan_example_sell by auto
  have h6: "map action (snd (scan_loop [] [example_market ''0.9'' ''0.1''])) = [SCAN, TRADE]"
    using scan_example_sell by simp
  show ?thesis
    using h1 h2 h3 h4 h5 h6
      runTradingCycle_outcomes [of "example_world (Inr [])" "[]"
        "[example_market ''0.9'' ''0.1'']"
        "TransportError ''CLOB GET /balance failed (503)''"]
      runTradingCycle_outcomes [of "example_world (Inl (TransportError ''CoinGecko 503''))"
        "[]" "[]" "TransportError ''CoinGecko 503''"]
    by simp
qed

end
